theory Spec2Isabelle
  imports Complex_Main
begin

section \<open>Faults\<close>

text \<open>
  The program handles no exception: the first one raised ends the run. Every function
  of the model that can raise returns \<open>py_error + 'a\<close>, with \<open>Inl\<close> the exception.
  \<open>OperationalError\<close> and \<open>IntegrityError\<close> are the two exceptions of \<open>sqlite3\<close>
  the statements of the program can raise.
\<close>

datatype py_error =
    IndexError
  | ValueError
  | ZeroDivisionError
  | AttributeError
  | OperationalError
  | IntegrityError

definition and_then :: "py_error + 'a \<Rightarrow> ('a \<Rightarrow> py_error + 'b) \<Rightarrow> py_error + 'b" where
  "and_then m f = (case m of Inl e \<Rightarrow> Inl e | Inr v \<Rightarrow> f v)"

definition py_index :: "'a list \<Rightarrow> nat \<Rightarrow> py_error + 'a" where
  \<comment> \<open>\<open>xs[i]\<close> for a literal index \<open>i \<ge> 0\<close>\<close>
  "py_index xs i = (if i < length xs then Inr (xs ! i) else Inl IndexError)"

section \<open>Characters and text\<close>

text \<open>
  Header labels and cell texts are modelled as ASCII strings. The three character
  classes below are Python's \<open>str.isspace\<close>, \<open>str.isdigit\<close> and the class \<open>\w\<close> of
  \<open>re\<close> on the code points below 128.
\<close>

definition isspace :: "char \<Rightarrow> bool" where
  "isspace c = (let n = (of_char c :: nat) in (9 \<le> n \<and> n \<le> 13) \<or> (28 \<le> n \<and> n \<le> 32))"

definition isdigit :: "char \<Rightarrow> bool" where
  "isdigit c = (let n = (of_char c :: nat) in 48 \<le> n \<and> n \<le> 57)"

definition is_word :: "char \<Rightarrow> bool" where
  "is_word c = (let n = (of_char c :: nat) in
     (48 \<le> n \<and> n \<le> 57) \<or> (65 \<le> n \<and> n \<le> 90) \<or> (97 \<le> n \<and> n \<le> 122) \<or> n = 95)"

definition strip :: "string \<Rightarrow> string" where
  \<comment> \<open>\<open>s.strip()\<close>\<close>
  "strip s = rev (dropWhile isspace (rev (dropWhile isspace s)))"

definition replace_percent :: "string \<Rightarrow> string" where
  \<comment> \<open>\<open>s.replace("%", "Pct")\<close>: every occurrence, not only a trailing one\<close>
  "replace_percent s = concat (map (\<lambda>c. if c = CHR ''%'' then ''Pct'' else [c]) s)"

definition sub_nonword :: "string \<Rightarrow> string" where
  \<comment> \<open>\<open>re.sub(r'\W+', '', s)\<close>: deleting every run of non-word characters leaves the
     word characters, in order\<close>
  "sub_nonword s = filter is_word s"

section \<open>scrape_nba_player_data\<close>

text \<open>
  The fetch and the markup parser are outside the program. What \<open>scrape_nba_player_data\<close>
  reads of the document is the table \<open>per_game_stats\<close>, if there is one, as its rows
  in order, each row as its cells in order, each cell as its kind and text.
\<close>

datatype cell = Th string | Td string

type_synonym html_table = "cell list list"

fun th_texts :: "cell list \<Rightarrow> string list" where
  "th_texts [] = []"
| "th_texts (Th s # cs) = s # th_texts cs"
| "th_texts (Td s # cs) = th_texts cs"

fun td_texts :: "cell list \<Rightarrow> string list" where
  "td_texts [] = []"
| "td_texts (Th s # cs) = td_texts cs"
| "td_texts (Td s # cs) = s # td_texts cs"

definition header_text :: "string \<Rightarrow> string" where
  \<comment> \<open>line 34, for one header cell\<close>
  "header_text s = replace_percent (strip s)"

definition sanitize :: "string \<Rightarrow> py_error + string" where
  \<comment> \<open>the body of the loop of lines 38 to 42; \<open>sanitized_header[0]\<close> raises on the
     empty string\<close>
  "sanitize header =
     (let sanitized_header = sub_nonword header in
      and_then (py_index sanitized_header 0) (\<lambda>c.
        if isdigit c then Inr (CHR ''_'' # sanitized_header) else Inr sanitized_header))"

definition sanitize_header :: "string \<Rightarrow> py_error + string" where
  \<comment> \<open>what lines 34 to 42 do to the text of one header cell\<close>
  "sanitize_header raw = sanitize (header_text raw)"

fun sanitize_all :: "string list \<Rightarrow> py_error + string list" where
  "sanitize_all [] = Inr []"
| "sanitize_all (header # headers) =
     and_then (sanitize header) (\<lambda>h. and_then (sanitize_all headers) (\<lambda>hs. Inr (h # hs)))"

definition scrape_nba_player_data ::
  "html_table option \<Rightarrow> py_error + (string list \<times> string list list)" where
  "scrape_nba_player_data doc =
     (case doc of
        None \<Rightarrow> Inl AttributeError
      | Some table \<Rightarrow>
          and_then (py_index (take 2 table) 0) (\<lambda>tr0.
            let headers = drop 1 (map header_text (th_texts tr0)) in
            and_then (sanitize_all headers) (\<lambda>sanitized_headers.
              let player_data = map td_texts (drop 1 table) in
              Inr (sanitized_headers, player_data))))"

section \<open>The store\<close>

text \<open>
  The store of a season is one SQLite file holding the table \<open>players\<close>. The model
  keeps the column names in schema order and the rows in insertion order, each row as
  its values in schema order. A value is text (every column made from a header is
  declared \<open>TEXT\<close>) or a real (the column \<open>PER\<close> is declared \<open>REAL\<close>; Python floats
  are modelled as reals, so rounding, infinities and NaN are not modelled).
  SQLite matches column names without regard to ASCII case. Headers are taken to be
  SQL identifiers, as the sanitizer produces them; reserved words are not modelled.
\<close>

datatype sql_value = SText string | SReal real

record table =
  columns :: "string list"
  rows :: "sql_value list list"

definition ascii_lower :: "char \<Rightarrow> nat" where
  \<comment> \<open>the code of a character, of its lower-case form for \<open>A\<close> to \<open>Z\<close>\<close>
  "ascii_lower c = (let n = (of_char c :: nat) in if 65 \<le> n \<and> n \<le> 90 then n + 32 else n)"

definition same_name :: "string \<Rightarrow> string \<Rightarrow> bool" where
  "same_name a b = (map ascii_lower a = map ascii_lower b)"

fun column_index :: "string list \<Rightarrow> string \<Rightarrow> nat option" where
  "column_index [] name = None"
| "column_index (c # cs) name =
     (if same_name c name then Some 0 else map_option Suc (column_index cs name))"

fun distinct_names :: "string list \<Rightarrow> bool" where
  "distinct_names [] = True"
| "distinct_names (c # cs) = (column_index cs c = None \<and> distinct_names cs)"

definition identity :: "sql_value list \<Rightarrow> sql_value \<times> sql_value" where
  \<comment> \<open>the values of a row in the two columns of the primary key, the first two of
     the schema\<close>
  "identity r = (r ! 0, r ! 1)"

definition sql_create_table :: "string list \<Rightarrow> py_error + table" where
  \<comment> \<open>lines 72 to 81, in a new file: an empty list of header columns leaves
     \<open>player_team TEXT, , PER REAL\<close>, which is no SQL; a repeated column name is
     refused\<close>
  "sql_create_table stat_columns =
     (let cols = [''player_name'', ''player_team''] @ stat_columns @ [''PER''] in
      if stat_columns = [] \<or> \<not> distinct_names cols then Inl OperationalError
      else Inr \<lparr>columns = cols, rows = []\<rparr>)"

definition sql_select_count :: "table \<Rightarrow> string \<Rightarrow> string \<Rightarrow> py_error + nat" where
  \<comment> \<open>line 93: \<open>SELECT COUNT(*) FROM players WHERE player_name = ? AND player_team = ?\<close>\<close>
  "sql_select_count t player_name player_team =
     (case (column_index (columns t) ''player_name'', column_index (columns t) ''player_team'') of
        (Some i, Some j) \<Rightarrow>
          Inr (length (filter (\<lambda>r. r ! i = SText player_name \<and> r ! j = SText player_team) (rows t)))
      | _ \<Rightarrow> Inl OperationalError)"

definition sql_insert :: "table \<Rightarrow> sql_value list \<Rightarrow> py_error + table" where
  \<comment> \<open>lines 101 to 105: the statement names every column of the table in schema order,
     so the values are the new row; as many values as columns, or the statement is
     refused; the primary key refuses a second row of the same identity\<close>
  "sql_insert t r =
     (if length r \<noteq> length (columns t) then Inl OperationalError
      else if identity r \<in> set (map identity (rows t)) then Inl IntegrityError
      else Inr (t\<lparr>rows := rows t @ [r]\<rparr>))"

definition sql_rename_column :: "table \<Rightarrow> string \<Rightarrow> string \<Rightarrow> py_error + table" where
  \<comment> \<open>\<open>ALTER TABLE players RENAME COLUMN old TO new\<close>: refused when no column is
     named \<open>old\<close> or a column is already named \<open>new\<close>; the values stay where they are\<close>
  "sql_rename_column t old new =
     (case column_index (columns t) old of
        None \<Rightarrow> Inl OperationalError
      | Some i \<Rightarrow>
          if column_index (columns t) new \<noteq> None then Inl OperationalError
          else Inr (t\<lparr>columns := (columns t)[i := new]\<rparr>))"

section \<open>create_nba_database\<close>

definition stat_columns :: "string list \<Rightarrow> string list" where
  \<comment> \<open>\<open>[header for header in headers if header not in ['Player', 'Tm']]\<close>\<close>
  "stat_columns headers = filter (\<lambda>header. header \<notin> set [''Player'', ''Tm'']) headers"

definition fill :: "string \<Rightarrow> string" where
  \<comment> \<open>\<open>stat if stat else '0'\<close>\<close>
  "fill stat = (if stat \<noteq> [] then stat else ''0'')"

definition new_row :: "string list \<Rightarrow> sql_value list" where
  \<comment> \<open>line 105: \<open>[player_name, player_team] + player_stats_filled + [0]\<close>, as stored\<close>
  "new_row player_info =
     [SText (player_info ! 0), SText (player_info ! 1)]
       @ map (SText \<circ> fill) (drop 2 player_info) @ [SReal 0]"

fun insert_all :: "table \<Rightarrow> string list list \<Rightarrow> py_error + table" where
  \<comment> \<open>the loop of lines 84 to 105\<close>
  "insert_all t [] = Inr t"
| "insert_all t (player_info # player_data) =
     (if length player_info < 2 then insert_all t player_data
      else
        and_then (sql_select_count t (player_info ! 0) (player_info ! 1)) (\<lambda>n.
          if n = 0 then
            and_then (sql_insert t (new_row player_info)) (\<lambda>t'. insert_all t' player_data)
          else insert_all t player_data))"

definition create_and_insert :: "string list \<Rightarrow> string list list \<Rightarrow> py_error + table" where
  \<comment> \<open>lines 72 to 105\<close>
  "create_and_insert headers player_data =
     and_then (sql_create_table (stat_columns headers)) (\<lambda>t. insert_all t player_data)"

definition rename_columns :: "table \<Rightarrow> py_error + table" where
  \<comment> \<open>lines 108 to 110\<close>
  "rename_columns t =
     and_then (sql_rename_column t ''player_team'' ''Position'') (\<lambda>t.
     and_then (sql_rename_column t ''Age'' ''Tm'') (\<lambda>t.
     sql_rename_column t ''Pos'' ''Age''))"

definition create_nba_database ::
  "string list \<Rightarrow> string list list \<Rightarrow> table option \<Rightarrow> py_error + table option" where
  \<comment> \<open>the store is \<open>None\<close> when the file of the season does not exist\<close>
  "create_nba_database headers player_data store =
     (case store of
        None \<Rightarrow>
          and_then (create_and_insert headers player_data) (\<lambda>t.
          and_then (rename_columns t) (\<lambda>t. Inr (Some t)))
      | Some t \<Rightarrow> Inr (Some t))"

section \<open>PER_calculator\<close>

text \<open>
  \<open>float\<close> is Python's conversion of text to a float, a parameter of the model:
  \<open>None\<close> where it raises \<open>ValueError\<close>. A value read back from a \<open>REAL\<close> column is a
  float already.
\<close>

type_synonym float_of_text = "string \<Rightarrow> real option"

definition py_float :: "float_of_text \<Rightarrow> sql_value \<Rightarrow> py_error + real" where
  "py_float float v =
     (case v of
        SReal x \<Rightarrow> Inr x
      | SText s \<Rightarrow> (case float s of None \<Rightarrow> Inl ValueError | Some x \<Rightarrow> Inr x))"

definition py_div :: "real \<Rightarrow> real \<Rightarrow> py_error + real" where
  "py_div a b = (if b = 0 then Inl ZeroDivisionError else Inr (a / b))"

definition stat :: "float_of_text \<Rightarrow> sql_value list \<Rightarrow> nat \<Rightarrow> py_error + real" where
  \<comment> \<open>\<open>float(player_record[i])\<close>\<close>
  "stat float player_record i = and_then (py_index player_record i) (py_float float)"

definition PER_of_record :: "float_of_text \<Rightarrow> sql_value list \<Rightarrow> py_error + real" where
  \<comment> \<open>lines 138 to 160\<close>
  "PER_of_record float player_record =
     and_then (stat float player_record 6) (\<lambda>minutes_played.
     and_then (stat float player_record 28) (\<lambda>points.
     and_then (stat float player_record 23) (\<lambda>assists.
     and_then (stat float player_record 21) (\<lambda>defensive_rebounds.
     and_then (stat float player_record 20) (\<lambda>offensive_rebounds.
     and_then (stat float player_record 24) (\<lambda>steals.
     and_then (stat float player_record 25) (\<lambda>blocks.
     and_then (stat float player_record 13) (\<lambda>two_pointers_made.
     and_then (stat float player_record 10) (\<lambda>three_pointers_made.
     and_then (stat float player_record 14) (\<lambda>two_pointers_attempted.
     and_then (stat float player_record 11) (\<lambda>three_pointers_attempted.
     and_then (stat float player_record 26) (\<lambda>turnovers.
     and_then (stat float player_record 27) (\<lambda>personal_fouls.
     and_then
       (py_div
          ((two_pointers_attempted / 2) + three_pointers_attempted +
           (turnovers * 2) + (personal_fouls / 3))
          minutes_played) (\<lambda>penalty.
     Inr ((points + assists + (defensive_rebounds / 2) + offensive_rebounds +
           (steals * 2) + (blocks * 2) + two_pointers_made +
           (three_pointers_made * 2))
          - penalty)))))))))))))))"

definition sql_update_PER ::
  "table \<Rightarrow> real \<Rightarrow> sql_value \<Rightarrow> sql_value \<Rightarrow> py_error + table" where
  \<comment> \<open>line 163: \<open>UPDATE players SET PER = ? WHERE player_name = ? AND Position = ?\<close>\<close>
  "sql_update_PER t PER name position =
     (case (column_index (columns t) ''PER'', column_index (columns t) ''player_name'',
            column_index (columns t) ''Position'') of
        (Some k, Some i, Some j) \<Rightarrow>
          Inr (t\<lparr>rows :=
                 map (\<lambda>r. if r ! i = name \<and> r ! j = position then r[k := SReal PER] else r)
                   (rows t)\<rparr>)
      | _ \<Rightarrow> Inl OperationalError)"

fun update_all :: "float_of_text \<Rightarrow> table \<Rightarrow> sql_value list list \<Rightarrow> py_error + table" where
  \<comment> \<open>the loop of lines 136 to 163 over the records fetched at line 134\<close>
  "update_all float t [] = Inr t"
| "update_all float t (player_record # player_records) =
     and_then (PER_of_record float player_record) (\<lambda>PER.
     and_then (py_index player_record 0) (\<lambda>name.
     and_then (py_index player_record 1) (\<lambda>position.
     and_then (sql_update_PER t PER name position) (\<lambda>t'.
     update_all float t' player_records))))"

definition PER_calculator ::
  "float_of_text \<Rightarrow> html_table option \<Rightarrow> table option \<Rightarrow> py_error + table option" where
  \<comment> \<open>the document is what the fetch of line 127 returns; with no file for the season,
     \<open>connect\<close> makes an empty one and line 133 finds no table\<close>
  "PER_calculator float doc store =
     and_then (scrape_nba_player_data doc) (\<lambda>(headers, player_data).
       case store of
         None \<Rightarrow> Inl OperationalError
       | Some t \<Rightarrow> and_then (update_all float t (rows t)) (\<lambda>t'. Inr (Some t')))"

section \<open>print_top_players\<close>

text \<open>
  The column \<open>G\<close> is declared \<open>TEXT\<close> (line 76), so in \<open>G >= 50\<close> SQLite turns the
  literal into the text \<open>50\<close> and compares texts, byte by byte, a proper prefix
  being the smaller. A real can only sit in a column that is not \<open>TEXT\<close>, where the
  comparison is numeric.
\<close>

fun text_le :: "string \<Rightarrow> string \<Rightarrow> bool" where
  "text_le [] t = True"
| "text_le (c # s) [] = False"
| "text_le (c # s) (d # t) = (if c = d then text_le s t else (of_char c :: nat) < of_char d)"

fun games_at_least_50 :: "sql_value \<Rightarrow> bool" where
  "games_at_least_50 (SText g) = text_le ''50'' g"
| "games_at_least_50 (SReal g) = (50 \<le> g)"

definition select_top_players ::
  "table \<Rightarrow> py_error + (sql_value \<times> sql_value \<times> sql_value) list" where
  \<comment> \<open>lines 183 and 184: \<open>SELECT player_name, Position, PER FROM players WHERE G >= 50\<close>\<close>
  "select_top_players t =
     (case (column_index (columns t) ''player_name'', column_index (columns t) ''Position'',
            column_index (columns t) ''PER'', column_index (columns t) ''G'') of
        (Some i, Some j, Some k, Some g) \<Rightarrow>
          Inr (map (\<lambda>r. (r ! i, r ! j, r ! k)) (filter (\<lambda>r. games_at_least_50 (r ! g)) (rows t)))
      | _ \<Rightarrow> Inl OperationalError)"

section \<open>Running the model\<close>

text \<open>
  One value for the parameter \<open>float\<close>, used to run the model on records: the
  conversion on unsigned decimal text (digits, with an optional point), the form of
  the cells of the statistics table. On other text it gives no value.
\<close>

definition nat_of_digits :: "string \<Rightarrow> nat" where
  "nat_of_digits s = foldl (\<lambda>a c. 10 * a + (of_char c - 48)) 0 s"

definition float_of_decimal :: float_of_text where
  "float_of_decimal s =
     (let whole = takeWhile isdigit s; rest = dropWhile isdigit s in
      if rest = [] then (if whole = [] then None else Some (real (nat_of_digits whole)))
      else if hd rest = CHR ''.'' \<and> list_all isdigit (tl rest) \<and> (whole \<noteq> [] \<or> tl rest \<noteq> [])
      then Some (real (nat_of_digits whole) + real (nat_of_digits (tl rest)) / 10 ^ length (tl rest))
      else None)"

text \<open>
  A stored record of thirty values, in the layout that the field positions of
  \<open>PER_calculator\<close> assume: minutes at index 6, the statistics up to points at
  index 28, then \<open>PER\<close>. Its thirteen inputs are those of the example of the
  specification.
\<close>

definition example_record :: "sql_value list" where
  "example_record =
     [SText ''LeBron James'', SText ''SF'', SText ''39'', SText ''LAL'', SText ''71'',
      SText ''71'', SText ''30'', SText ''8'', SText ''15'', SText ''.533'',
      SText ''2'', SText ''5'', SText ''.400'', SText ''6'', SText ''10'',
      SText ''.600'', SText ''.600'', SText ''2'', SText ''3'', SText ''.667'',
      SText ''2'', SText ''4'', SText ''6'', SText ''5'', SText ''1'',
      SText ''1'', SText ''2'', SText ''3'', SText ''20'', SReal 0]"

text \<open>
  A small season: five headers as the sanitizer returns them, and four table rows, of
  which one has no data cell and one repeats the identity of the first.
\<close>

definition demo_headers :: "string list" where
  "demo_headers = [''Player'', ''Pos'', ''Age'', ''Tm'', ''G'']"

definition demo_player_data :: "string list list" where
  "demo_player_data =
     [[''A Guard'', ''PG'', ''25'', ''LAL'', ''50''],
      [],
      [''A Guard'', ''PG'', ''26'', ''BOS'', ''''],
      [''B Center'', ''C'', ''30'', ''NYK'', ''49'']]"

definition demo_created :: table where
  "demo_created =
     \<lparr>columns = [''player_name'', ''player_team'', ''Pos'', ''Age'', ''G'', ''PER''],
      rows = [[SText ''A Guard'', SText ''PG'', SText ''25'', SText ''LAL'', SText ''50'', SReal 0],
              [SText ''B Center'', SText ''C'', SText ''30'', SText ''NYK'', SText ''49'', SReal 0]]\<rparr>"

definition demo_store :: table where
  "demo_store =
     \<lparr>columns = [''player_name'', ''Position'', ''Age'', ''Tm'', ''G'', ''PER''],
      rows = [[SText ''A Guard'', SText ''PG'', SText ''25'', SText ''LAL'', SText ''50'', SReal 0],
              [SText ''B Center'', SText ''C'', SText ''30'', SText ''NYK'', SText ''49'', SReal 0]]\<rparr>"

definition demo_document :: html_table where
  \<comment> \<open>the small season as a table: a header row, and a second header row among the
     data rows\<close>
  "demo_document =
     [[Th ''Rk'', Th ''Player'', Th ''Pos'', Th ''Age'', Th ''Tm'', Th ''G''],
      [Th ''1'', Td ''A Guard'', Td ''PG'', Td ''25'', Td ''LAL'', Td ''50''],
      [Th ''Rk'', Th ''Player'', Th ''Pos'', Th ''Age'', Th ''Tm'', Th ''G''],
      [Th ''2'', Td ''A Guard'', Td ''PG'', Td ''26'', Td ''BOS'', Td ''''],
      [Th ''3'', Td ''B Center'', Td ''C'', Td ''30'', Td ''NYK'', Td ''49'']]"

definition example_store :: table where
  \<comment> \<open>a store of the thirty columns the field positions of \<open>PER_calculator\<close> assume,
     holding the one record above\<close>
  "example_store =
     \<lparr>columns =
        [''player_name'', ''Position'', ''Age'', ''Tm'', ''G'', ''GS'', ''MP'', ''FG'', ''FGA'',
         ''FGPct'', ''_3P'', ''_3PA'', ''_3PPct'', ''_2P'', ''_2PA'', ''_2PPct'', ''eFGPct'',
         ''FT'', ''FTA'', ''FTPct'', ''ORB'', ''DRB'', ''TRB'', ''AST'', ''STL'', ''BLK'',
         ''TOV'', ''PF'', ''PTS'', ''PER''],
      rows = [example_record]\<rparr>"

definition example_document :: html_table where
  \<comment> \<open>the table that gives \<open>example_store\<close>: the header row and one data row\<close>
  "example_document =
     [[Th ''Rk'', Th ''Player'', Th ''Pos'', Th ''Age'', Th ''Tm'', Th ''G'', Th ''GS'',
       Th ''MP'', Th ''FG'', Th ''FGA'', Th ''FG%'', Th ''3P'', Th ''3PA'', Th ''3P%'',
       Th ''2P'', Th ''2PA'', Th ''2P%'', Th ''eFG%'', Th ''FT'', Th ''FTA'', Th ''FT%'',
       Th ''ORB'', Th ''DRB'', Th ''TRB'', Th ''AST'', Th ''STL'', Th ''BLK'', Th ''TOV'',
       Th ''PF'', Th ''PTS''],
      [Th ''1'', Td ''LeBron James'', Td ''SF'', Td ''39'', Td ''LAL'', Td ''71'', Td ''71'',
       Td ''30'', Td ''8'', Td ''15'', Td ''.533'', Td ''2'', Td ''5'', Td ''.400'',
       Td ''6'', Td ''10'', Td ''.600'', Td ''.600'', Td ''2'', Td ''3'', Td ''.667'',
       Td ''2'', Td ''4'', Td ''6'', Td ''5'', Td ''1'', Td ''1'', Td ''2'',
       Td ''3'', Td ''20'']]"

definition example_headers :: "string list" where
  \<comment> \<open>the sanitized headers of \<open>example_document\<close>\<close>
  "example_headers =
     [''Player'', ''Pos'', ''Age'', ''Tm'', ''G'', ''GS'', ''MP'', ''FG'', ''FGA'', ''FGPct'',
      ''_3P'', ''_3PA'', ''_3PPct'', ''_2P'', ''_2PA'', ''_2PPct'', ''eFGPct'', ''FT'', ''FTA'',
      ''FTPct'', ''ORB'', ''DRB'', ''TRB'', ''AST'', ''STL'', ''BLK'', ''TOV'', ''PF'', ''PTS'']"

section \<open>Header sanitization\<close>

lemmas sanitize_defs =
  sanitize_header_def sanitize_def header_text_def strip_def replace_percent_def
  sub_nonword_def py_index_def and_then_def is_word_def isspace_def isdigit_def

lemma word_not_space: "is_word c \<Longrightarrow> \<not> isspace c"
  by (auto simp: is_word_def isspace_def Let_def)

lemma percent_not_word: "\<not> is_word CHR ''%''"
  by (simp add: is_word_def)

lemma underscore_word: "is_word CHR ''_''" "\<not> isdigit CHR ''_''"
  by (simp_all add: is_word_def isdigit_def)

lemma strip_words:
  assumes "\<forall>c\<in>set s. is_word c"
  shows "strip s = s"
proof -
  have "dropWhile isspace s = s"
    using assms word_not_space by (intro dropWhile_id) auto
  moreover have "dropWhile isspace (rev s) = rev s"
    using assms word_not_space by (intro dropWhile_id) auto
  ultimately show ?thesis
    by (simp add: strip_def)
qed

lemma replace_percent_words:
  "\<forall>c\<in>set s. is_word c \<Longrightarrow> replace_percent s = s"
proof (induction s)
  case Nil
  show ?case by (simp add: replace_percent_def)
next
  case (Cons c s)
  then have "c \<noteq> CHR ''%''"
    using percent_not_word by auto
  with Cons show ?case
    by (simp add: replace_percent_def)
qed

lemma header_text_words: "\<forall>c\<in>set s. is_word c \<Longrightarrow> header_text s = s"
  by (simp add: header_text_def strip_words replace_percent_words)

lemma sanitize_Inr:
  "sanitize h = Inr s \<longleftrightarrow>
     sub_nonword h \<noteq> [] \<and>
     s = (if isdigit (hd (sub_nonword h)) then CHR ''_'' # sub_nonword h else sub_nonword h)"
  by (cases "sub_nonword h") (auto simp: sanitize_def py_index_def and_then_def Let_def)

lemma sanitize_Inl: "sanitize h = Inl e \<longleftrightarrow> sub_nonword h = [] \<and> e = IndexError"
  by (cases "sub_nonword h") (auto simp: sanitize_def py_index_def and_then_def Let_def)

text \<open>
  The loop body returns a header exactly for the texts that hold a word character;
  on every other text, the empty one among them, it raises \<open>IndexError\<close>.
\<close>

lemma sanitize_returns_iff: "(\<exists>s. sanitize h = Inr s) \<longleftrightarrow> (\<exists>c\<in>set h. is_word c)"
  by (auto simp: sanitize_Inr sub_nonword_def filter_empty_conv)

lemma sanitize_words:
  "sanitize h = Inr s \<Longrightarrow> (\<forall>c\<in>set s. is_word c) \<and> s \<noteq> [] \<and> \<not> isdigit (hd s)"
  by (auto simp: sanitize_Inr sub_nonword_def underscore_word split: if_splits)

lemma sanitize_fixed:
  assumes "\<forall>c\<in>set s. is_word c" "s \<noteq> []" "\<not> isdigit (hd s)"
  shows "sanitize s = Inr s"
proof -
  have "sub_nonword s = s"
    using assms(1) by (simp add: sub_nonword_def)
  with assms(2,3) show ?thesis
    by (simp add: sanitize_Inr)
qed

text \<open>
  C6. The claim: header sanitization returns a result, without faulting, for every
  header text, the empty one included. The code does not: line 40 reads
  \<open>sanitized_header[0]\<close> with no check that a character is left, so the empty
  header, and a header of non-word characters only, raise \<open>IndexError\<close>, and with
  them the whole of \<open>scrape_nba_player_data\<close> on a table that has such a header cell.
\<close>

theorem sanitize_empty_header_faults:
  "sanitize_header '''' = Inl IndexError \<and> sanitize_header ''+/-'' = Inl IndexError \<and>
   scrape_nba_player_data (Some [[Th ''Rk'', Th ''Player'', Th '''', Th ''G'']]) = Inl IndexError"
  by (simp add: scrape_nba_player_data_def sanitize_defs)

text \<open>
  C7. Header sanitization is idempotent: where it returns a header, sanitizing that
  header again returns the same header. This holds of lines 34 to 42 together and of
  the loop body (lines 39 to 41) alone. The raw header \<open>3P\<close> gives \<open>_3P\<close>, and
  \<open>_3P\<close> gives \<open>_3P\<close>.
\<close>

theorem sanitize_idempotent:
  "(sanitize_header h = Inr s \<longrightarrow> sanitize_header s = Inr s) \<and>
   (sanitize h = Inr s \<longrightarrow> sanitize s = Inr s) \<and>
   sanitize_header ''3P'' = Inr ''_3P'' \<and> sanitize_header ''_3P'' = Inr ''_3P''"
proof (intro conjI impI)
  assume "sanitize_header h = Inr s"
  then have w: "(\<forall>c\<in>set s. is_word c) \<and> s \<noteq> [] \<and> \<not> isdigit (hd s)"
    unfolding sanitize_header_def by (rule sanitize_words)
  then have "header_text s = s"
    by (simp add: header_text_words)
  with w show "sanitize_header s = Inr s"
    by (simp add: sanitize_header_def sanitize_fixed)
next
  assume "sanitize h = Inr s"
  then have "(\<forall>c\<in>set s. is_word c) \<and> s \<noteq> [] \<and> \<not> isdigit (hd s)"
    by (rule sanitize_words)
  then show "sanitize s = Inr s"
    by (simp add: sanitize_fixed)
next
  show "sanitize_header ''3P'' = Inr ''_3P''"
    by (simp add: sanitize_defs)
next
  show "sanitize_header ''_3P'' = Inr ''_3P''"
    by (simp add: sanitize_defs)
qed

theorem sanitize_idempotent_witness:
  "sanitize_header '' 3P% '' = Inr ''_3PPct'' \<and> sanitize_header ''_3PPct'' = Inr ''_3PPct''
   \<and> sanitize ''3-P'' = Inr ''_3P'' \<and> sanitize ''_3P'' = Inr ''_3P''"
proof -
  have a: "sanitize_header '' 3P% '' = Inr ''_3PPct''"
    by (simp add: sanitize_defs)
  have b: "sanitize ''3-P'' = Inr ''_3P''"
    by (simp add: sanitize_defs)
  from a b sanitize_idempotent [of "'' 3P% ''" "''_3PPct''"]
    sanitize_idempotent [of "''3-P''" "''_3P''"]
  show ?thesis by blast
qed

section \<open>The score of a record\<close>

lemma and_then_Inl [simp]: "and_then (Inl e) f = Inl e"
  by (simp add: and_then_def)

lemma and_then_Inr [simp]: "and_then (Inr v) f = f v"
  by (simp add: and_then_def)

lemma and_then_eq_Inr:
  "and_then m f = Inr y \<longleftrightarrow> (\<exists>v. m = Inr v \<and> f v = Inr y)"
  by (cases m) simp_all

lemma stat_Inr_length: "stat float r i = Inr x \<Longrightarrow> i < length r"
  by (auto simp: stat_def py_index_def split: if_splits)

lemma PER_of_record_zero_minutes:
  assumes "stat float r 6 = Inr 0"
  shows "\<exists>e. PER_of_record float r = Inl e"
  using assms
  by (auto simp: PER_of_record_def py_div_def and_then_def split: sum.splits)

lemma update_all_fault:
  "r \<in> set rs \<Longrightarrow> PER_of_record float r = Inl e \<Longrightarrow> \<exists>e'. update_all float t rs = Inl e'"
proof (induction rs arbitrary: t)
  case Nil
  then show ?case by simp
next
  case (Cons a rs)
  show ?case
  proof (cases "a = r")
    case True
    with Cons.prems show ?thesis by simp
  next
    case False
    with Cons.prems have "r \<in> set rs" by simp
    with Cons have ih: "\<And>t. \<exists>e'. update_all float t rs = Inl e'" by blast
    show ?thesis
      using ih by (auto simp: and_then_def split: sum.splits)
  qed
qed

lemma example_record_stats:
  "stat float_of_decimal example_record 6 = Inr 30"
  "stat float_of_decimal example_record 28 = Inr 20"
  "stat float_of_decimal example_record 23 = Inr 5"
  "stat float_of_decimal example_record 21 = Inr 4"
  "stat float_of_decimal example_record 20 = Inr 2"
  "stat float_of_decimal example_record 24 = Inr 1"
  "stat float_of_decimal example_record 25 = Inr 1"
  "stat float_of_decimal example_record 13 = Inr 6"
  "stat float_of_decimal example_record 10 = Inr 2"
  "stat float_of_decimal example_record 14 = Inr 10"
  "stat float_of_decimal example_record 11 = Inr 5"
  "stat float_of_decimal example_record 26 = Inr 2"
  "stat float_of_decimal example_record 27 = Inr 3"
  by (simp_all add: stat_def example_record_def py_index_def py_float_def
      float_of_decimal_def isdigit_def nat_of_digits_def)

text \<open>
  C1. For a stored record whose thirteen fields convert to numbers and whose minutes
  played \<open>M\<close> are positive, \<open>PER_calculator\<close> computes, and writes with the update of
  line 163, the score
  \<open>(points + assists + defReb/2 + offReb + 2*steals + 2*blocks + made2 + 2*made3)
   - ((att2/2 + att3 + 2*turnovers + fouls/3) / M)\<close>:
  only the penalty subtotal is divided by \<open>M\<close>. The inputs of the example of the
  specification give 42.5.
\<close>

theorem PER_formula_grouping:
  assumes "stat float r 6 = Inr M" and "0 < M"
    and "stat float r 28 = Inr points" and "stat float r 23 = Inr assists"
    and "stat float r 21 = Inr defReb" and "stat float r 20 = Inr offReb"
    and "stat float r 24 = Inr steals" and "stat float r 25 = Inr blocks"
    and "stat float r 13 = Inr made2" and "stat float r 10 = Inr made3"
    and "stat float r 14 = Inr att2" and "stat float r 11 = Inr att3"
    and "stat float r 26 = Inr turnovers" and "stat float r 27 = Inr fouls"
  shows "PER_of_record float r =
           Inr ((points + assists + defReb / 2 + offReb + 2 * steals + 2 * blocks
                 + made2 + 2 * made3)
                - ((att2 / 2 + att3 + 2 * turnovers + fouls / 3) / M))
         \<and> update_all float t (r # rs) =
             and_then
               (sql_update_PER t
                  ((points + assists + defReb / 2 + offReb + 2 * steals + 2 * blocks
                    + made2 + 2 * made3)
                   - ((att2 / 2 + att3 + 2 * turnovers + fouls / 3) / M))
                  (r ! 0) (r ! 1))
               (\<lambda>t'. update_all float t' rs)"
proof -
  have per: "PER_of_record float r =
           Inr ((points + assists + defReb / 2 + offReb + 2 * steals + 2 * blocks
                 + made2 + 2 * made3)
                - ((att2 / 2 + att3 + 2 * turnovers + fouls / 3) / M))"
    using assms by (simp add: PER_of_record_def py_div_def mult.commute)
  have "28 < length r"
    using assms(3) by (rule stat_Inr_length)
  then have "py_index r 0 = Inr (r ! 0)" "py_index r 1 = Inr (r ! 1)"
    by (auto simp: py_index_def)
  with per show ?thesis
    by simp
qed

theorem PER_formula_grouping_witness:
  "PER_of_record float_of_decimal example_record = Inr 42.5"
  using PER_formula_grouping [of float_of_decimal example_record 30 20 5 4 2 1 1 6 2 10 5 2 3,
      OF example_record_stats(1) _ example_record_stats(2-)]
  by simp

text \<open>
  C4. For a stored record whose minutes-played field is 0 the computation of the
  score produces no value, whatever the other fields hold, and so does the whole run
  of \<open>PER_calculator\<close> on a store that holds such a record; when the twelve other
  fields convert to numbers the fault is the division fault. No test on the minutes
  stands before the division of line 160. With minutes other than 0, and the other
  fields numbers, the score is computed.
\<close>

theorem zero_minutes_faults:
  "(stat float r 6 = Inr 0 \<longrightarrow>
      (\<exists>e. PER_of_record float r = Inl e) \<and>
      (\<forall>doc t. r \<in> set (rows t) \<longrightarrow> (\<exists>e. PER_calculator float doc (Some t) = Inl e))) \<and>
   (stat float r 6 = Inr 0 \<and>
    (\<forall>i\<in>{28, 23, 21, 20, 24, 25, 13, 10, 14, 11, 26, 27}. \<exists>x. stat float r i = Inr x) \<longrightarrow>
      PER_of_record float r = Inl ZeroDivisionError \<and>
      (\<forall>t rs. update_all float t (r # rs) = Inl ZeroDivisionError)) \<and>
   (stat float r 6 = Inr M \<and> M \<noteq> 0 \<and>
    (\<forall>i\<in>{28, 23, 21, 20, 24, 25, 13, 10, 14, 11, 26, 27}. \<exists>x. stat float r i = Inr x) \<longrightarrow>
      (\<exists>v. PER_of_record float r = Inr v))"
proof (intro conjI impI allI)
  assume z: "stat float r 6 = Inr 0"
  then show "\<exists>e. PER_of_record float r = Inl e"
    by (rule PER_of_record_zero_minutes)
next
  fix doc and t :: table
  assume z: "stat float r 6 = Inr 0" and r: "r \<in> set (rows t)"
  from z obtain e where "PER_of_record float r = Inl e"
    using PER_of_record_zero_minutes by blast
  with r obtain e' where "update_all float t (rows t) = Inl e'"
    using update_all_fault by blast
  then show "\<exists>e. PER_calculator float doc (Some t) = Inl e"
    by (cases "scrape_nba_player_data doc") (auto simp: PER_calculator_def)
next
  assume a: "stat float r 6 = Inr 0 \<and>
    (\<forall>i\<in>{28, 23, 21, 20, 24, 25, 13, 10, 14, 11, 26, 27}. \<exists>x. stat float r i = Inr x)"
  then show "PER_of_record float r = Inl ZeroDivisionError"
    by (auto simp: PER_of_record_def py_div_def)
next
  fix t :: table and rs
  assume a: "stat float r 6 = Inr 0 \<and>
    (\<forall>i\<in>{28, 23, 21, 20, 24, 25, 13, 10, 14, 11, 26, 27}. \<exists>x. stat float r i = Inr x)"
  then have "PER_of_record float r = Inl ZeroDivisionError"
    by (auto simp: PER_of_record_def py_div_def)
  then show "update_all float t (r # rs) = Inl ZeroDivisionError"
    by simp
next
  assume a: "stat float r 6 = Inr M \<and> M \<noteq> 0 \<and>
    (\<forall>i\<in>{28, 23, 21, 20, 24, 25, 13, 10, 14, 11, 26, 27}. \<exists>x. stat float r i = Inr x)"
  then show "\<exists>v. PER_of_record float r = Inr v"
    by (auto simp: PER_of_record_def py_div_def)
qed

lemma zero_minutes_record_stats:
  "stat float_of_decimal (example_record[6 := SText ''0'']) 6 = Inr 0"
  "\<forall>i\<in>{28, 23, 21, 20, 24, 25, 13, 10, 14, 11, 26, 27}.
     \<exists>x. stat float_of_decimal (example_record[6 := SText ''0'']) i = Inr x"
  "\<forall>i\<in>{28, 23, 21, 20, 24, 25, 13, 10, 14, 11, 26, 27}.
     \<exists>x. stat float_of_decimal example_record i = Inr x"
  by (simp_all add: stat_def example_record_def py_index_def py_float_def
      float_of_decimal_def isdigit_def nat_of_digits_def)

theorem zero_minutes_faults_witness:
  "PER_of_record float_of_decimal (example_record[6 := SText ''0'']) = Inl ZeroDivisionError
   \<and> PER_calculator float_of_decimal (Some [[Th ''Rk'', Th ''Player'']])
       (Some \<lparr>columns = [], rows = [example_record[6 := SText ''0'']]\<rparr>)
       = Inl ZeroDivisionError
   \<and> (\<exists>v. PER_of_record float_of_decimal example_record = Inr v)"
proof -
  have a: "PER_of_record float_of_decimal (example_record[6 := SText ''0'']) = Inl ZeroDivisionError"
    using zero_minutes_faults [of float_of_decimal "example_record[6 := SText ''0'']" 0]
      zero_minutes_record_stats(1,2)
    by blast
  have c: "\<exists>v. PER_of_record float_of_decimal example_record = Inr v"
    using zero_minutes_faults [of float_of_decimal example_record 30]
      example_record_stats(1) zero_minutes_record_stats(3)
    by simp
  have "scrape_nba_player_data (Some [[Th ''Rk'', Th ''Player'']]) = Inr ([''Player''], [])"
    by (simp add: scrape_nba_player_data_def sanitize_defs)
  with a have "PER_calculator float_of_decimal (Some [[Th ''Rk'', Th ''Player'']])
       (Some \<lparr>columns = [], rows = [example_record[6 := SText ''0'']]\<rparr>)
       = Inl ZeroDivisionError"
    by (simp add: PER_calculator_def)
  with a c show ?thesis
    by blast
qed

section \<open>Column names\<close>

lemma same_name_refl [simp]: "same_name a a"
  by (simp add: same_name_def)

lemma same_name_sym: "same_name a b \<Longrightarrow> same_name b a"
  by (simp add: same_name_def)

lemma same_name_trans: "same_name a b \<Longrightarrow> same_name b c \<Longrightarrow> same_name a c"
  by (simp add: same_name_def)

lemma different_names:
  "\<not> same_name ''player_name'' ''player_team''"
  "\<not> same_name ''player_name'' ''Position''"
  "\<not> same_name ''player_name'' ''Age''"
  "\<not> same_name ''player_name'' ''Tm''"
  "\<not> same_name ''player_name'' ''Pos''"
  "\<not> same_name ''player_name'' ''PER''"
  "\<not> same_name ''player_name'' ''G''"
  "\<not> same_name ''player_team'' ''player_name''"
  "\<not> same_name ''player_team'' ''Position''"
  "\<not> same_name ''player_team'' ''Age''"
  "\<not> same_name ''player_team'' ''Tm''"
  "\<not> same_name ''player_team'' ''Pos''"
  "\<not> same_name ''player_team'' ''PER''"
  "\<not> same_name ''player_team'' ''G''"
  "\<not> same_name ''Position'' ''player_name''"
  "\<not> same_name ''Position'' ''player_team''"
  "\<not> same_name ''Position'' ''Age''"
  "\<not> same_name ''Position'' ''Tm''"
  "\<not> same_name ''Position'' ''Pos''"
  "\<not> same_name ''Position'' ''PER''"
  "\<not> same_name ''Position'' ''G''"
  "\<not> same_name ''Age'' ''player_name''"
  "\<not> same_name ''Age'' ''player_team''"
  "\<not> same_name ''Age'' ''Position''"
  "\<not> same_name ''Age'' ''Tm''"
  "\<not> same_name ''Age'' ''Pos''"
  "\<not> same_name ''Age'' ''PER''"
  "\<not> same_name ''Age'' ''G''"
  "\<not> same_name ''Tm'' ''player_name''"
  "\<not> same_name ''Tm'' ''player_team''"
  "\<not> same_name ''Tm'' ''Position''"
  "\<not> same_name ''Tm'' ''Age''"
  "\<not> same_name ''Tm'' ''Pos''"
  "\<not> same_name ''Tm'' ''PER''"
  "\<not> same_name ''Tm'' ''G''"
  "\<not> same_name ''Pos'' ''player_name''"
  "\<not> same_name ''Pos'' ''player_team''"
  "\<not> same_name ''Pos'' ''Position''"
  "\<not> same_name ''Pos'' ''Age''"
  "\<not> same_name ''Pos'' ''Tm''"
  "\<not> same_name ''Pos'' ''PER''"
  "\<not> same_name ''Pos'' ''G''"
  "\<not> same_name ''PER'' ''player_name''"
  "\<not> same_name ''PER'' ''player_team''"
  "\<not> same_name ''PER'' ''Position''"
  "\<not> same_name ''PER'' ''Age''"
  "\<not> same_name ''PER'' ''Tm''"
  "\<not> same_name ''PER'' ''Pos''"
  "\<not> same_name ''PER'' ''G''"
  "\<not> same_name ''G'' ''player_name''"
  "\<not> same_name ''G'' ''player_team''"
  "\<not> same_name ''G'' ''Position''"
  "\<not> same_name ''G'' ''Age''"
  "\<not> same_name ''G'' ''Tm''"
  "\<not> same_name ''G'' ''Pos''"
  "\<not> same_name ''G'' ''PER''"
  by (simp_all add: same_name_def ascii_lower_def)

lemma column_index_None_iff: "column_index cs n = None \<longleftrightarrow> (\<forall>c\<in>set cs. \<not> same_name c n)"
  by (induction cs) auto

lemma column_index_Some:
  "column_index cs n = Some i \<Longrightarrow> i < length cs \<and> same_name (cs ! i) n"
  by (induction cs arbitrary: i) (auto split: if_splits)

lemma column_index_update_new:
  "column_index cs n = None \<Longrightarrow> i < length cs \<Longrightarrow> column_index (cs[i := n]) n = Some i"
proof (induction cs arbitrary: i)
  case Nil
  then show ?case by simp
next
  case (Cons c cs)
  then show ?case
    by (cases i) (auto split: if_splits)
qed

lemma column_index_update_other:
  "column_index cs m = Some k \<Longrightarrow> j \<noteq> k \<Longrightarrow> \<not> same_name new m \<Longrightarrow>
   column_index (cs[j := new]) m = Some k"
proof (induction cs arbitrary: j k)
  case Nil
  then show ?case by simp
next
  case (Cons c cs)
  then show ?case
    by (cases j) (auto split: if_splits)
qed

lemma column_index_rename:
  assumes "column_index cs m = Some k" and "column_index cs old = Some j"
    and "\<not> same_name old m" and "\<not> same_name new m"
  shows "column_index (cs[j := new]) m = Some k"
proof -
  have "same_name (cs ! k) m" "same_name (cs ! j) old"
    using assms(1,2) column_index_Some by blast+
  then have "j \<noteq> k"
    using assms(3) same_name_sym same_name_trans by blast
  with assms show ?thesis
    by (simp add: column_index_update_other)
qed

lemma sql_rename_column_Inr:
  "sql_rename_column t old new = Inr t' \<longleftrightarrow>
     (\<exists>i. column_index (columns t) old = Some i \<and> column_index (columns t) new = None \<and>
          t' = t\<lparr>columns := (columns t)[i := new]\<rparr>)"
  by (auto simp: sql_rename_column_def split: option.splits)

lemma column_index_rename_back:
  assumes "column_index (cs[j := new]) m = Some k" and "column_index cs old = Some j"
    and "\<not> same_name old m" and "\<not> same_name new m"
  shows "column_index cs m = Some k"
proof -
  from assms(1) have k: "k < length cs" "same_name (cs[j := new] ! k) m"
    using column_index_Some by fastforce+
  from assms(2) have j: "j < length cs"
    using column_index_Some by blast
  have "k \<noteq> j"
    using k j assms(4) by auto
  with k have "same_name (cs ! k) m"
    by simp
  with k(1) have "column_index cs m \<noteq> None"
    by (auto simp: column_index_None_iff)
  then obtain k0 where k0: "column_index cs m = Some k0"
    by blast
  from column_index_rename [OF k0 assms(2,3,4)] assms(1) show ?thesis
    using k0 by simp
qed

section \<open>Creating and filling the table\<close>

lemma sql_create_table_Inr:
  "sql_create_table cs = Inr t \<Longrightarrow>
     columns t = ''player_name'' # ''player_team'' # cs @ [''PER''] \<and> rows t = [] \<and>
     distinct_names (columns t)"
  by (auto simp: sql_create_table_def Let_def split: if_splits)

lemma first_columns:
  assumes "columns t = ''player_name'' # ''player_team'' # cs"
  shows "column_index (columns t) ''player_name'' = Some 0"
    and "column_index (columns t) ''player_team'' = Some 1"
  using assms by (simp_all add: different_names)

lemma sql_select_count_identity:
  assumes "columns t = ''player_name'' # ''player_team'' # cs"
  shows "sql_select_count t a b =
           Inr (length (filter (\<lambda>r. identity r = (SText a, SText b)) (rows t)))"
  using first_columns [OF assms] by (simp add: sql_select_count_def identity_def)

lemma identity_new_row: "identity (new_row p) = (SText (p ! 0), SText (p ! 1))"
  by (simp add: identity_def new_row_def)

lemma count_zero_iff:
  "length (filter (\<lambda>r. identity r = k) rs) = 0 \<longleftrightarrow> k \<notin> set (map identity rs)"
  by (auto simp: filter_empty_conv)

lemma sql_insert_Inr:
  "sql_insert t r = Inr t' \<longleftrightarrow>
     length r = length (columns t) \<and> identity r \<notin> set (map identity (rows t)) \<and>
     t' = t\<lparr>rows := rows t @ [r]\<rparr>"
  by (auto simp: sql_insert_def)

text \<open>
  What the loop of lines 84 to 105 keeps, from any table whose first two columns are
  the two identity columns: the columns, the rows already there, and no repeated
  identity; what it adds: one row for each new identity among the rows of at least
  two fields.
\<close>

lemma insert_all_invariant:
  assumes "insert_all t player_data = Inr t'"
    and "columns t = ''player_name'' # ''player_team'' # cs"
    and "distinct (map identity (rows t))"
  shows "columns t' = columns t \<and> distinct (map identity (rows t')) \<and>
         set (map identity (rows t')) =
           set (map identity (rows t)) \<union>
           {(SText (p ! 0), SText (p ! 1)) | p. p \<in> set player_data \<and> 2 \<le> length p} \<and>
         (\<forall>r\<in>set (rows t'). r \<in> set (rows t) \<or>
            (\<exists>p\<in>set player_data. 2 \<le> length p \<and> r = new_row p))"
  using assms
proof (induction player_data arbitrary: t)
  case Nil
  then show ?case by simp
next
  case (Cons p ps)
  note cnt = sql_select_count_identity [OF Cons.prems(2), of "p ! 0" "p ! 1"]
  show ?case
  proof (cases "length p < 2")
    case True
    with Cons.prems have "insert_all t ps = Inr t'" by simp
    from Cons.IH [OF this Cons.prems(2,3)] True show ?thesis
      by auto
  next
    case long: False
    show ?thesis
    proof (cases "(SText (p ! 0), SText (p ! 1)) \<in> set (map identity (rows t))")
      case True
      then have "length (filter (\<lambda>r. identity r = (SText (p ! 0), SText (p ! 1))) (rows t)) \<noteq> 0"
        using count_zero_iff [of "(SText (p ! 0), SText (p ! 1))" "rows t"] by blast
      with Cons.prems(1) long cnt have "insert_all t ps = Inr t'"
        by simp
      from Cons.IH [OF this Cons.prems(2,3)] True long show ?thesis
        by auto
    next
      case False
      then have "length (filter (\<lambda>r. identity r = (SText (p ! 0), SText (p ! 1))) (rows t)) = 0"
        using count_zero_iff [of "(SText (p ! 0), SText (p ! 1))" "rows t"] by blast
      with Cons.prems(1) long cnt
      have "and_then (sql_insert t (new_row p)) (\<lambda>t'. insert_all t' ps) = Inr t'"
        by simp
      then obtain t1 where ins: "sql_insert t (new_row p) = Inr t1"
        and rest: "insert_all t1 ps = Inr t'"
        by (auto simp: and_then_eq_Inr)
      from ins have t1: "t1 = t\<lparr>rows := rows t @ [new_row p]\<rparr>"
        by (simp add: sql_insert_Inr)
      have c1: "columns t1 = ''player_name'' # ''player_team'' # cs"
        using t1 Cons.prems(2) by simp
      have d1: "distinct (map identity (rows t1))"
        using t1 Cons.prems(3) False by (simp add: identity_new_row)
      from Cons.IH [OF rest c1 d1] t1 long show ?thesis
        by (auto simp: identity_new_row)
    qed
  qed
qed

lemma create_and_insert_Inr:
  assumes "create_and_insert headers player_data = Inr t"
  shows "columns t = ''player_name'' # ''player_team'' # stat_columns headers @ [''PER'']"
    and "distinct_names (columns t)"
    and "distinct (map identity (rows t))"
    and "set (map identity (rows t)) =
           {(SText (p ! 0), SText (p ! 1)) | p. p \<in> set player_data \<and> 2 \<le> length p}"
    and "\<forall>r\<in>set (rows t). \<exists>p\<in>set player_data. 2 \<le> length p \<and> r = new_row p"
proof -
  from assms obtain t0 where t0: "sql_create_table (stat_columns headers) = Inr t0"
    and ins: "insert_all t0 player_data = Inr t"
    by (auto simp: create_and_insert_def and_then_eq_Inr)
  note c = sql_create_table_Inr [OF t0]
  from c have c0: "columns t0 = ''player_name'' # ''player_team'' # (stat_columns headers @ [''PER''])"
    and d0: "distinct (map identity (rows t0))"
    by simp_all
  note inv = insert_all_invariant [OF ins c0 d0]
  from inv c show "columns t = ''player_name'' # ''player_team'' # stat_columns headers @ [''PER'']"
    by simp
  from inv have eq: "columns t = columns t0"
    by blast
  from c have "distinct_names (columns t0)"
    by blast
  then show "distinct_names (columns t)"
    unfolding eq .
  from inv show "distinct (map identity (rows t))"
    by simp
  from inv c show "set (map identity (rows t)) =
           {(SText (p ! 0), SText (p ! 1)) | p. p \<in> set player_data \<and> 2 \<le> length p}"
    by simp
  from inv c show "\<forall>r\<in>set (rows t). \<exists>p\<in>set player_data. 2 \<le> length p \<and> r = new_row p"
    by simp
qed

lemma create_nba_database_new:
  "create_nba_database headers player_data None = Inr (Some t) \<longleftrightarrow>
     (\<exists>t0. create_and_insert headers player_data = Inr t0 \<and> rename_columns t0 = Inr t)"
  by (auto simp: create_nba_database_def and_then_eq_Inr)

lemma rename_columns_Inr:
  "rename_columns t0 = Inr t \<longleftrightarrow>
     (\<exists>t1 t2. sql_rename_column t0 ''player_team'' ''Position'' = Inr t1 \<and>
              sql_rename_column t1 ''Age'' ''Tm'' = Inr t2 \<and>
              sql_rename_column t2 ''Pos'' ''Age'' = Inr t)"
  by (auto simp: rename_columns_def and_then_eq_Inr)

section \<open>The three renames\<close>

lemma rename_columns_effect:
  assumes ren: "rename_columns t0 = Inr t"
    and cols: "columns t0 = ''player_name'' # ''player_team'' # cs"
  shows "\<exists>t1 t2 a p.
     sql_rename_column t0 ''player_team'' ''Position'' = Inr t1 \<and>
     sql_rename_column t1 ''Age'' ''Tm'' = Inr t2 \<and>
     sql_rename_column t2 ''Pos'' ''Age'' = Inr t \<and>
     rows t = rows t0 \<and>
     column_index (columns t0) ''player_team'' = Some 1 \<and>
     column_index (columns t) ''Position'' = Some 1 \<and>
     column_index (columns t0) ''Age'' = Some a \<and>
     column_index (columns t) ''Tm'' = Some a \<and>
     column_index (columns t0) ''Pos'' = Some p \<and>
     column_index (columns t) ''Age'' = Some p \<and>
     columns t = (columns t0)[1 := ''Position'', a := ''Tm'', p := ''Age''] \<and>
     (\<forall>m k. column_index (columns t0) m = Some k \<longrightarrow>
        \<not> same_name ''player_team'' m \<longrightarrow> \<not> same_name ''Position'' m \<longrightarrow>
        \<not> same_name ''Age'' m \<longrightarrow> \<not> same_name ''Tm'' m \<longrightarrow> \<not> same_name ''Pos'' m \<longrightarrow>
        column_index (columns t) m = Some k)"
proof -
  from ren obtain t1 t2 where r1: "sql_rename_column t0 ''player_team'' ''Position'' = Inr t1"
    and r2: "sql_rename_column t1 ''Age'' ''Tm'' = Inr t2"
    and r3: "sql_rename_column t2 ''Pos'' ''Age'' = Inr t"
    by (auto simp: rename_columns_Inr)
  note team = first_columns(2) [OF cols]
  from r1 team have n1: "column_index (columns t0) ''Position'' = None"
    and t1: "t1 = t0\<lparr>columns := (columns t0)[1 := ''Position'']\<rparr>"
    by (auto simp: sql_rename_column_Inr)
  from r2 obtain a where a1: "column_index (columns t1) ''Age'' = Some a"
    and n2: "column_index (columns t1) ''Tm'' = None"
    and t2: "t2 = t1\<lparr>columns := (columns t1)[a := ''Tm'']\<rparr>"
    by (auto simp: sql_rename_column_Inr)
  from r3 obtain p where p2: "column_index (columns t2) ''Pos'' = Some p"
    and n3: "column_index (columns t2) ''Age'' = None"
    and t3: "t = t2\<lparr>columns := (columns t2)[p := ''Age'']\<rparr>"
    by (auto simp: sql_rename_column_Inr)
  have c1: "columns t1 = (columns t0)[1 := ''Position'']"
    and c2: "columns t2 = (columns t1)[a := ''Tm'']"
    and c3: "columns t = (columns t2)[p := ''Age'']"
    using t1 t2 t3 by simp_all
  have a0: "column_index (columns t0) ''Age'' = Some a"
    using a1 team unfolding c1
    by (rule column_index_rename_back) (simp_all add: different_names)
  have p1: "column_index (columns t1) ''Pos'' = Some p"
    using p2 a1 unfolding c2
    by (rule column_index_rename_back) (simp_all add: different_names)
  have p0: "column_index (columns t0) ''Pos'' = Some p"
    using p1 team unfolding c1
    by (rule column_index_rename_back) (simp_all add: different_names)
  have "1 < length (columns t0)"
    using cols by simp
  with n1 have "column_index (columns t1) ''Position'' = Some 1"
    unfolding c1 by (rule column_index_update_new)
  then have "column_index (columns t2) ''Position'' = Some 1"
    using a1 unfolding c2
    by (rule column_index_rename) (simp_all add: different_names)
  then have pos: "column_index (columns t) ''Position'' = Some 1"
    using p2 unfolding c3
    by (rule column_index_rename) (simp_all add: different_names)
  have "a < length (columns t1)"
    using a1 column_index_Some by blast
  with n2 have "column_index (columns t2) ''Tm'' = Some a"
    unfolding c2 by (rule column_index_update_new)
  then have tm: "column_index (columns t) ''Tm'' = Some a"
    using p2 unfolding c3
    by (rule column_index_rename) (simp_all add: different_names)
  have "p < length (columns t2)"
    using p2 column_index_Some by blast
  with n3 have age: "column_index (columns t) ''Age'' = Some p"
    unfolding c3 by (rule column_index_update_new)
  have other: "column_index (columns t) m = Some k"
    if m: "column_index (columns t0) m = Some k"
      and d: "\<not> same_name ''player_team'' m" "\<not> same_name ''Position'' m"
        "\<not> same_name ''Age'' m" "\<not> same_name ''Tm'' m" "\<not> same_name ''Pos'' m"
    for m k
  proof -
    have "column_index (columns t1) m = Some k"
      using m team d(1,2) unfolding c1 by (rule column_index_rename)
    then have "column_index (columns t2) m = Some k"
      using a1 d(3,4) unfolding c2 by (rule column_index_rename)
    then show ?thesis
      using p2 d(5,3) unfolding c3 by (rule column_index_rename)
  qed
  have rws: "rows t = rows t0"
    using t1 t2 t3 by simp
  have cs: "columns t = (columns t0)[1 := ''Position'', a := ''Tm'', p := ''Age'']"
    using c1 c2 c3 by simp
  from r1 r2 r3 rws team pos a0 tm p0 age cs other show ?thesis
    by blast
qed

text \<open>
  C3. When \<open>create_nba_database\<close> creates the store of a season it ends with three
  renames, run one after the other in the order \<open>player_team\<close> to \<open>Position\<close>,
  \<open>Age\<close> to \<open>Tm\<close>, \<open>Pos\<close> to \<open>Age\<close>. The rows are not touched, so in the final
  schema the column named \<open>Position\<close> is the one created as \<open>player_team\<close>, the column
  named \<open>Tm\<close> the one created as \<open>Age\<close>, and the column named \<open>Age\<close> the one created
  as \<open>Pos\<close>; every other place of the schema keeps its name.
\<close>

theorem rename_sequence:
  assumes "create_nba_database headers player_data None = Inr (Some t)"
  shows "\<exists>t0 t1 t2 a p.
     create_and_insert headers player_data = Inr t0 \<and>
     sql_rename_column t0 ''player_team'' ''Position'' = Inr t1 \<and>
     sql_rename_column t1 ''Age'' ''Tm'' = Inr t2 \<and>
     sql_rename_column t2 ''Pos'' ''Age'' = Inr t \<and>
     rows t = rows t0 \<and>
     column_index (columns t0) ''player_team'' = Some 1 \<and>
     column_index (columns t) ''Position'' = Some 1 \<and>
     column_index (columns t0) ''Age'' = Some a \<and>
     column_index (columns t) ''Tm'' = Some a \<and>
     column_index (columns t0) ''Pos'' = Some p \<and>
     column_index (columns t) ''Age'' = Some p \<and>
     columns t = (columns t0)[1 := ''Position'', a := ''Tm'', p := ''Age'']"
proof -
  from assms obtain t0 where t0: "create_and_insert headers player_data = Inr t0"
    and ren: "rename_columns t0 = Inr t"
    by (auto simp: create_nba_database_new)
  from rename_columns_effect [OF ren create_and_insert_Inr(1) [OF t0]] t0 show ?thesis
    by blast
qed

lemma demo_create_and_insert:
  "create_and_insert demo_headers demo_player_data = Inr demo_created"
  by (simp add: create_and_insert_def sql_create_table_def stat_columns_def demo_headers_def
      demo_player_data_def demo_created_def sql_select_count_def sql_insert_def identity_def
      new_row_def fill_def same_name_def ascii_lower_def)

lemma demo_rename_columns: "rename_columns demo_created = Inr demo_store"
  by (simp add: rename_columns_def sql_rename_column_def demo_created_def demo_store_def
      same_name_def ascii_lower_def)

lemma demo_create_nba_database:
  "create_nba_database demo_headers demo_player_data None = Inr (Some demo_store)"
  by (simp add: create_nba_database_def demo_create_and_insert demo_rename_columns)

lemma demo_column_index:
  "column_index (columns demo_created) ''player_team'' = Some 1"
  "column_index (columns demo_created) ''Age'' = Some 3"
  "column_index (columns demo_created) ''Pos'' = Some 2"
  "column_index (columns demo_store) ''player_name'' = Some 0"
  "column_index (columns demo_store) ''Position'' = Some 1"
  "column_index (columns demo_store) ''Tm'' = Some 3"
  "column_index (columns demo_store) ''Age'' = Some 2"
  "column_index (columns demo_store) ''G'' = Some 4"
  "column_index (columns demo_store) ''PER'' = Some 5"
  by (simp_all add: demo_created_def demo_store_def same_name_def ascii_lower_def)

theorem rename_sequence_witness:
  "create_nba_database demo_headers demo_player_data None = Inr (Some demo_store) \<and>
   create_and_insert demo_headers demo_player_data = Inr demo_created \<and>
   rows demo_store = rows demo_created \<and>
   column_index (columns demo_created) ''player_team'' = Some 1 \<and>
   column_index (columns demo_store) ''Position'' = Some 1 \<and>
   column_index (columns demo_created) ''Age'' = Some 3 \<and>
   column_index (columns demo_store) ''Tm'' = Some 3 \<and>
   column_index (columns demo_created) ''Pos'' = Some 2 \<and>
   column_index (columns demo_store) ''Age'' = Some 2"
proof -
  from rename_sequence [OF demo_create_nba_database]
  obtain t0 a p where "create_and_insert demo_headers demo_player_data = Inr t0"
    and r: "rows demo_store = rows t0"
    and l: "column_index (columns t0) ''player_team'' = Some 1"
      "column_index (columns demo_store) ''Position'' = Some 1"
      "column_index (columns t0) ''Age'' = Some a"
      "column_index (columns demo_store) ''Tm'' = Some a"
      "column_index (columns t0) ''Pos'' = Some p"
      "column_index (columns demo_store) ''Age'' = Some p"
    by blast
  then have t0: "t0 = demo_created"
    by (simp add: demo_create_and_insert)
  from l(3,5) have "a = 3" "p = 2"
    unfolding t0 by (simp_all add: demo_column_index)
  with r l t0 demo_create_nba_database demo_create_and_insert show ?thesis
    by simp
qed

section \<open>Identities\<close>

lemma rename_columns_rows: "rename_columns t0 = Inr t \<Longrightarrow> rows t = rows t0"
  by (auto simp: rename_columns_Inr sql_rename_column_Inr)

text \<open>
  C5. In the store a run of \<open>create_nba_database\<close> creates, no two rows have the same
  identity (the values of the two key columns, stored from the first two fields of a
  table row): line 93 probes for the identity and line 94 skips the insert when a
  row has it, so each identity met in the run is stored once. The primary key of the
  schema refuses an insert that would repeat an identity. A run that finds the file
  of the season leaves the store as it is.
\<close>

theorem identity_unique:
  "(create_nba_database headers player_data None = Inr (Some t) \<longrightarrow>
      distinct (map identity (rows t)) \<and>
      set (map identity (rows t)) =
        {(SText (p ! 0), SText (p ! 1)) | p. p \<in> set player_data \<and> 2 \<le> length p}) \<and>
   (identity r \<in> set (map identity (rows t)) \<longrightarrow> sql_insert t r \<in> {Inl OperationalError, Inl IntegrityError}) \<and>
   create_nba_database headers player_data (Some t) = Inr (Some t)"
proof (intro conjI impI)
  assume "create_nba_database headers player_data None = Inr (Some t)"
  then obtain t0 where t0: "create_and_insert headers player_data = Inr t0"
    and ren: "rename_columns t0 = Inr t"
    by (auto simp: create_nba_database_new)
  have rws: "rows t = rows t0"
    using ren by (rule rename_columns_rows)
  from create_and_insert_Inr(3) [OF t0] show "distinct (map identity (rows t))"
    unfolding rws .
  from create_and_insert_Inr(4) [OF t0]
  show "set (map identity (rows t)) =
        {(SText (p ! 0), SText (p ! 1)) | p. p \<in> set player_data \<and> 2 \<le> length p}"
    unfolding rws .
next
  assume "identity r \<in> set (map identity (rows t))"
  then show "sql_insert t r \<in> {Inl OperationalError, Inl IntegrityError}"
    by (simp add: sql_insert_def)
next
  show "create_nba_database headers player_data (Some t) = Inr (Some t)"
    by (simp add: create_nba_database_def)
qed

theorem identity_unique_witness:
  "create_nba_database demo_headers demo_player_data None = Inr (Some demo_store) \<and>
   distinct (map identity (rows demo_store)) \<and>
   map identity (rows demo_store) =
     [(SText ''A Guard'', SText ''PG''), (SText ''B Center'', SText ''C'')] \<and>
   sql_insert demo_store
     [SText ''A Guard'', SText ''PG'', SText ''26'', SText ''BOS'', SText ''0'', SReal 0]
     = Inl IntegrityError"
proof -
  have ids: "map identity (rows demo_store) =
     [(SText ''A Guard'', SText ''PG''), (SText ''B Center'', SText ''C'')]"
    by (simp add: demo_store_def identity_def)
  let ?r = "[SText ''A Guard'', SText ''PG'', SText ''26'', SText ''BOS'', SText ''0'', SReal 0]"
  have "identity ?r \<in> set (map identity (rows demo_store))"
    unfolding ids by (simp add: identity_def)
  with identity_unique [of demo_headers demo_player_data demo_store ?r]
    demo_create_nba_database
  have d: "distinct (map identity (rows demo_store))"
    and i: "sql_insert demo_store ?r \<in> {Inl OperationalError, Inl IntegrityError}"
    by blast+
  have "sql_insert demo_store ?r \<noteq> Inl OperationalError"
    by (simp add: sql_insert_def demo_store_def)
  with i have "sql_insert demo_store ?r = Inl IntegrityError"
    by blast
  with d ids demo_create_nba_database show ?thesis
    by blast
qed

section \<open>The whole run on the example\<close>

lemma example_scrape:
  "scrape_nba_player_data (Some example_document) =
     Inr (example_headers, [td_texts (example_document ! 1)])"
  by (simp add: scrape_nba_player_data_def example_document_def example_headers_def
      sanitize_defs)

lemma example_record_PER: "PER_of_record float_of_decimal example_record = Inr 42.5"
  by (simp add: PER_of_record_def example_record_stats py_div_def)

lemma example_column_index:
  "column_index (columns example_store) ''player_name'' = Some 0"
  "column_index (columns example_store) ''Position'' = Some 1"
  "column_index (columns example_store) ''PER'' = Some 29"
  "column_index (columns example_store) ''Tm'' = Some 3"
  "column_index (columns example_store) ''Age'' = Some 2"
  by (simp_all add: example_store_def same_name_def ascii_lower_def)

lemma example_PER_calculator:
  "PER_calculator float_of_decimal (Some example_document) (Some example_store) =
     Inr (Some (example_store\<lparr>rows := [example_record[29 := SReal 42.5]]\<rparr>))"
proof -
  have "rows example_store = [example_record]"
    by (simp add: example_store_def)
  moreover have "py_index example_record 0 = Inr (example_record ! 0)"
    "py_index example_record 1 = Inr (example_record ! 1)"
    by (simp_all add: py_index_def example_record_def)
  ultimately show ?thesis
    by (simp add: PER_calculator_def example_scrape example_record_PER sql_update_PER_def
        example_column_index)
qed

text \<open>
  The table of the example, taken through \<open>scrape_nba_player_data\<close> and
  \<open>create_nba_database\<close>, gives the store of the example: the positions that
  \<open>PER_calculator\<close> reads are those of \<open>MP\<close>, \<open>PTS\<close>, \<open>AST\<close>, \<open>DRB\<close>, \<open>ORB\<close>, \<open>STL\<close>,
  \<open>BLK\<close>, \<open>_2P\<close>, \<open>_3P\<close>, \<open>_2PA\<close>, \<open>_3PA\<close>, \<open>TOV\<close> and \<open>PF\<close>.
\<close>

lemma example_create_nba_database:
  "create_nba_database example_headers [td_texts (example_document ! 1)] None
     = Inr (Some example_store)"
  by (simp add: example_headers_def example_document_def
      create_nba_database_def create_and_insert_def sql_create_table_def stat_columns_def
      sql_select_count_def sql_insert_def identity_def rename_columns_def sql_rename_column_def
      new_row_def fill_def same_name_def ascii_lower_def example_store_def example_record_def)

lemma example_positions:
  "map (\<lambda>i. columns example_store ! i) [6, 28, 23, 21, 20, 24, 25, 13, 10, 14, 11, 26, 27]
     = [''MP'', ''PTS'', ''AST'', ''DRB'', ''ORB'', ''STL'', ''BLK'', ''_2P'', ''_3P'', ''_2PA'',
        ''_3PA'', ''TOV'', ''PF'']"
  by (simp add: example_store_def)

section \<open>Stored rows\<close>

lemma new_row_nth:
  assumes "2 \<le> i" and "i < length p"
  shows "new_row p ! i = SText (fill (p ! i))"
proof -
  from assms(1) obtain j where i: "i = Suc (Suc j)"
    by (metis add_2_eq_Suc le_Suc_ex)
  have j: "j < length (drop 2 p)"
    using assms(2) i by simp
  have "new_row p ! i = (map (SText \<circ> fill) (drop 2 p) @ [SReal 0]) ! j"
    unfolding i by (simp add: new_row_def)
  also have "\<dots> = map (SText \<circ> fill) (drop 2 p) ! j"
    using j by (simp add: nth_append)
  also have "\<dots> = SText (fill (drop 2 p ! j))"
    using j by simp
  also have "drop 2 p ! j = p ! i"
    using assms(2) i by simp
  finally show ?thesis .
qed

lemma length_new_row: "2 \<le> length p \<Longrightarrow> length (new_row p) = length p + 1"
  by (simp add: new_row_def)

lemma insert_all_lengths:
  "insert_all t pd = Inr t' \<Longrightarrow> \<forall>r\<in>set (rows t). length r = length (columns t) \<Longrightarrow>
     columns t' = columns t \<and> (\<forall>r\<in>set (rows t'). length r = length (columns t))"
proof (induction pd arbitrary: t)
  case Nil
  then show ?case by simp
next
  case (Cons p ps)
  show ?case
  proof (cases "length p < 2")
    case True
    with Cons.prems have "insert_all t ps = Inr t'" by simp
    from Cons.IH [OF this Cons.prems(2)] show ?thesis .
  next
    case False
    with Cons.prems(1) obtain n :: nat where
      n: "(if n = 0 then and_then (sql_insert t (new_row p)) (\<lambda>t'. insert_all t' ps)
          else insert_all t ps) = Inr t'"
      by (auto simp: and_then_eq_Inr)
    show ?thesis
    proof (cases "n = 0")
      case True
      with n obtain t1 where ins: "sql_insert t (new_row p) = Inr t1"
        and rest: "insert_all t1 ps = Inr t'"
        by (auto simp: and_then_eq_Inr)
      from ins have t1: "t1 = t\<lparr>rows := rows t @ [new_row p]\<rparr>"
        and len: "length (new_row p) = length (columns t)"
        by (simp_all add: sql_insert_Inr)
      have "\<forall>r\<in>set (rows t1). length r = length (columns t1)"
        using t1 len Cons.prems(2) by simp
      from Cons.IH [OF rest this] t1 show ?thesis
        by simp
    next
      case False
      with n have "insert_all t ps = Inr t'" by simp
      from Cons.IH [OF this Cons.prems(2)] show ?thesis .
    qed
  qed
qed

lemma create_and_insert_lengths:
  assumes "create_and_insert headers player_data = Inr t"
  shows "\<forall>r\<in>set (rows t). length r = length (columns t)"
proof -
  from assms obtain t0 where t0: "sql_create_table (stat_columns headers) = Inr t0"
    and ins: "insert_all t0 player_data = Inr t"
    by (auto simp: create_and_insert_def and_then_eq_Inr)
  from sql_create_table_Inr [OF t0] have "\<forall>r\<in>set (rows t0). length r = length (columns t0)"
    by simp
  from insert_all_lengths [OF ins this] show ?thesis
    by simp
qed

lemma PER_column_not_key:
  assumes "column_index cols ''player_name'' = Some 0"
    and "column_index cols ''Position'' = Some 1"
    and "column_index cols ''PER'' = Some k"
  shows "k \<noteq> 0 \<and> k \<noteq> 1"
proof -
  have c: "same_name (cols ! 0) ''player_name''" "same_name (cols ! 1) ''Position''"
    "same_name (cols ! k) ''PER''"
    using assms column_index_Some by blast+
  have "k \<noteq> 0"
  proof
    assume "k = 0"
    with c have "same_name ''player_name'' ''PER''"
      using same_name_sym same_name_trans by blast
    then show False
      by (simp add: different_names)
  qed
  moreover have "k \<noteq> 1"
  proof
    assume "k = 1"
    with c have "same_name ''Position'' ''PER''"
      using same_name_sym same_name_trans by blast
    then show False
      by (simp add: different_names)
  qed
  ultimately show ?thesis
    by blast
qed

section \<open>The update of the score\<close>

lemma PER_of_record_Inr_length: "PER_of_record float r = Inr v \<Longrightarrow> 28 < length r"
  by (auto simp: PER_of_record_def and_then_eq_Inr dest: stat_Inr_length)

lemma sql_update_PER_keyed:
  assumes "column_index (columns t) ''player_name'' = Some 0"
    and "column_index (columns t) ''Position'' = Some 1"
    and "column_index (columns t) ''PER'' = Some k"
  shows "sql_update_PER t PER name position =
      Inr (t\<lparr>rows := map (\<lambda>r. if r ! 0 = name \<and> r ! 1 = position
                               then r[k := SReal PER] else r) (rows t)\<rparr>)"
  using assms by (simp add: sql_update_PER_def)

lemma update_all_rows:
  assumes "column_index cols ''player_name'' = Some 0"
    and "column_index cols ''Position'' = Some 1"
    and "column_index cols ''PER'' = Some k"
    and "update_all float t rs = Inr t'"
    and "columns t = cols" and "rows t = done @ rs"
    and "distinct (map identity (done @ rs))"
  shows "columns t' = cols \<and>
     (\<exists>rs'. rows t' = done @ rs' \<and>
        list_all2 (\<lambda>r r'. \<exists>PER. PER_of_record float r = Inr PER \<and> r' = r[k := SReal PER]) rs rs')"
  using assms(4-)
proof (induction rs arbitrary: t "done")
  case Nil
  then show ?case by simp
next
  case (Cons r rs)
  note key = PER_column_not_key [OF assms(1-3)]
  from Cons.prems(1) obtain v where per: "PER_of_record float r = Inr v"
    by (auto simp: and_then_eq_Inr)
  then have "28 < length r"
    by (rule PER_of_record_Inr_length)
  then have ix: "py_index r 0 = Inr (r ! 0)" "py_index r 1 = Inr (r ! 1)"
    by (auto simp: py_index_def)
  let ?f = "\<lambda>x. if x ! 0 = r ! 0 \<and> x ! 1 = r ! 1 then x[k := SReal v] else x"
  let ?t1 = "t\<lparr>rows := map ?f (rows t)\<rparr>"
  have upd: "sql_update_PER t v (r ! 0) (r ! 1) = Inr ?t1"
    using assms(1-3) Cons.prems(2) by (simp add: sql_update_PER_keyed)
  with Cons.prems(1) per ix have rest: "update_all float ?t1 rs = Inr t'"
    by simp
  have other: "?f x = x" if "x \<in> set done \<union> set rs" for x
  proof -
    have "identity r \<notin> identity ` (set done \<union> set rs)"
      using Cons.prems(4) by auto
    with that have "identity x \<noteq> identity r"
      by (metis imageI)
    then show ?thesis
      by (auto simp: identity_def)
  qed
  have "map ?f done = done" "map ?f rs = rs"
    using other by (simp_all add: map_idI)
  then have rows1: "rows ?t1 = (done @ [r[k := SReal v]]) @ rs"
    using Cons.prems(3) by simp
  have "identity (r[k := SReal v]) = identity r"
    using key by (simp add: identity_def)
  then have d1: "distinct (map identity ((done @ [r[k := SReal v]]) @ rs))"
    using Cons.prems(4) by simp
  have c1: "columns ?t1 = cols"
    using Cons.prems(2) by simp
  from Cons.IH [OF rest c1 rows1 d1] obtain rs' where
    "columns t' = cols" "rows t' = (done @ [r[k := SReal v]]) @ rs'"
    "list_all2 (\<lambda>r r'. \<exists>PER. PER_of_record float r = Inr PER \<and> r' = r[k := SReal PER]) rs rs'"
    by blast
  with per show ?case
    by auto
qed

lemma same_identity_same_row:
  assumes "distinct (map identity rs)" and "r \<in> set rs" and "r' \<in> set rs"
    and "r' ! 0 = r ! 0" and "r' ! 1 = r ! 1"
  shows "r' = r"
proof -
  have "inj_on identity (set rs)"
    using assms(1) by (simp add: distinct_map)
  moreover have "identity r' = identity r"
    using assms(4,5) by (simp add: identity_def)
  ultimately show ?thesis
    using assms(2,3) by (auto dest: inj_onD)
qed

text \<open>
  C2, as stated: the update of line 163 is keyed on the pair of \<open>player_name\<close> and the
  column named \<open>Position\<close>, and that column holds the team abbreviation of the player
  rather than a basketball position. The second part does not hold. On the table of
  the example, whose headers after the row number are \<open>Player\<close>, \<open>Pos\<close>, \<open>Age\<close>,
  \<open>Tm\<close>, the layout the three renames and the field positions of \<open>PER_calculator\<close>
  assume, the column named \<open>Position\<close> holds the cell under the header \<open>Pos\<close>, and the
  team abbreviation, the cell under the header \<open>Tm\<close>, is in the column named \<open>Tm\<close>.
\<close>

theorem Position_column_holds_position_cell:
  "scrape_nba_player_data (Some example_document)
     = Inr (example_headers, [td_texts (example_document ! 1)]) \<and>
   create_nba_database example_headers [td_texts (example_document ! 1)] None
     = Inr (Some example_store) \<and>
   example_headers ! 1 = ''Pos'' \<and> td_texts (example_document ! 1) ! 1 = ''SF'' \<and>
   example_headers ! 3 = ''Tm'' \<and> td_texts (example_document ! 1) ! 3 = ''LAL'' \<and>
   column_index (columns example_store) ''Position'' = Some 1 \<and>
   rows example_store ! 0 ! 1 = SText ''SF'' \<and>
   column_index (columns example_store) ''Tm'' = Some 3 \<and>
   rows example_store ! 0 ! 3 = SText ''LAL'' \<and>
   rows example_store ! 0 ! 1 \<noteq> SText ''LAL''"
proof -
  have "example_headers ! 1 = ''Pos''" "example_headers ! 3 = ''Tm''"
    by (simp_all add: example_headers_def)
  moreover have "td_texts (example_document ! 1) ! 1 = ''SF''"
    "td_texts (example_document ! 1) ! 3 = ''LAL''"
    by (simp_all add: example_document_def)
  moreover have "rows example_store ! 0 ! 1 = SText ''SF''"
    "rows example_store ! 0 ! 3 = SText ''LAL''"
    by (simp_all add: example_store_def example_record_def)
  ultimately show ?thesis
    using example_scrape example_create_nba_database example_column_index(2,4)
    by simp
qed

text \<open>
  C2, amended: in a store that \<open>create_nba_database\<close> created, the update of line 163
  is keyed on the pair of the column \<open>player_name\<close>, the first of the schema, and the
  column named \<open>Position\<close>, the second. By the renames that column is the one created
  as \<open>player_team\<close>; it holds for each row the second data cell of its table row.
  \<open>PER_calculator\<close> passes the first two values of the record whose score it has
  computed, which select that record and no other, so that a run that returns has
  set the \<open>PER\<close> of every record to its own score. On a table whose headers after
  the row number are \<open>Player\<close>, \<open>Pos\<close>, \<open>Age\<close>, \<open>Tm\<close>, the second data cell is the
  cell under \<open>Pos\<close>, the basketball position, and the cells under \<open>Age\<close> and \<open>Tm\<close>
  are in the columns named \<open>Age\<close> and \<open>Tm\<close>.
\<close>

theorem update_keyed_on_name_and_Position:
  assumes "create_nba_database headers player_data None = Inr (Some t)"
  shows "column_index (columns t) ''player_name'' = Some 0 \<and>
     column_index (columns t) ''Position'' = Some 1 \<and>
     (\<exists>t0. create_and_insert headers player_data = Inr t0 \<and>
           column_index (columns t0) ''player_team'' = Some 1 \<and> rows t = rows t0) \<and>
     (\<forall>r\<in>set (rows t). \<exists>p\<in>set player_data.
        2 \<le> length p \<and> r ! 0 = SText (p ! 0) \<and> r ! 1 = SText (p ! 1)) \<and>
     (\<exists>k. column_index (columns t) ''PER'' = Some k \<and>
        (\<forall>(t' :: table) PER name position. columns t' = columns t \<longrightarrow>
           sql_update_PER t' PER name position =
             Inr (t'\<lparr>rows := map (\<lambda>r. if r ! 0 = name \<and> r ! 1 = position
                                       then r[k := SReal PER] else r) (rows t')\<rparr>)) \<and>
        (\<forall>float r rs PER (t' :: table).
           columns t' = columns t \<longrightarrow> PER_of_record float r = Inr PER \<longrightarrow>
           update_all float t' (r # rs) =
             update_all float
               (t'\<lparr>rows := map (\<lambda>r'. if r' ! 0 = r ! 0 \<and> r' ! 1 = r ! 1
                                      then r'[k := SReal PER] else r') (rows t')\<rparr>) rs) \<and>
        (\<forall>float t'. update_all float t (rows t) = Inr t' \<longrightarrow>
           columns t' = columns t \<and>
           list_all2 (\<lambda>r r'. \<exists>PER. PER_of_record float r = Inr PER \<and> r' = r[k := SReal PER])
             (rows t) (rows t'))) \<and>
     (\<forall>r\<in>set (rows t). \<forall>r'\<in>set (rows t). r' ! 0 = r ! 0 \<and> r' ! 1 = r ! 1 \<longrightarrow> r' = r) \<and>
     ((\<exists>rest. headers = ''Player'' # ''Pos'' # ''Age'' # ''Tm'' # rest) \<longrightarrow>
        column_index (columns t) ''Age'' = Some 2 \<and>
        column_index (columns t) ''Tm'' = Some 3 \<and>
        (\<forall>r\<in>set (rows t). \<exists>p\<in>set player_data.
           4 \<le> length p \<and> r ! 0 = SText (p ! 0) \<and> r ! 1 = SText (p ! 1) \<and>
           r ! 2 = SText (fill (p ! 2)) \<and> r ! 3 = SText (fill (p ! 3))))"
proof -
  from assms obtain t0 where t0: "create_and_insert headers player_data = Inr t0"
    and ren: "rename_columns t0 = Inr t"
    by (auto simp: create_nba_database_new)
  note c0 = create_and_insert_Inr [OF t0]
  from rename_columns_effect [OF ren c0(1)]
  obtain a p where rws: "rows t = rows t0"
    and team: "column_index (columns t0) ''player_team'' = Some 1"
    and pos: "column_index (columns t) ''Position'' = Some 1"
    and age0: "column_index (columns t0) ''Age'' = Some a"
    and tm: "column_index (columns t) ''Tm'' = Some a"
    and pos0: "column_index (columns t0) ''Pos'' = Some p"
    and age: "column_index (columns t) ''Age'' = Some p"
    and other: "\<And>m k. column_index (columns t0) m = Some k \<Longrightarrow>
        \<not> same_name ''player_team'' m \<Longrightarrow> \<not> same_name ''Position'' m \<Longrightarrow>
        \<not> same_name ''Age'' m \<Longrightarrow> \<not> same_name ''Tm'' m \<Longrightarrow> \<not> same_name ''Pos'' m \<Longrightarrow>
        column_index (columns t) m = Some k"
    by blast
  have name: "column_index (columns t) ''player_name'' = Some 0"
    by (rule other) (simp_all add: first_columns(1) [OF c0(1)] different_names)
  have "''PER'' \<in> set (columns t0)"
    unfolding c0(1) by simp
  then have "column_index (columns t0) ''PER'' \<noteq> None"
    using column_index_None_iff same_name_refl by blast
  then obtain k where "column_index (columns t0) ''PER'' = Some k"
    by blast
  then have per: "column_index (columns t) ''PER'' = Some k"
    by (rule other) (simp_all add: different_names)
  have upd: "sql_update_PER t' PER name position =
      Inr (t'\<lparr>rows := map (\<lambda>r. if r ! 0 = name \<and> r ! 1 = position
                                then r[k := SReal PER] else r) (rows t')\<rparr>)"
    if "columns t' = columns t" for t' :: table and PER name position
    using name pos per that by (simp add: sql_update_PER_keyed)
  have step: "update_all float t' (r # rs) =
      update_all float
        (t'\<lparr>rows := map (\<lambda>r'. if r' ! 0 = r ! 0 \<and> r' ! 1 = r ! 1
                               then r'[k := SReal PER] else r') (rows t')\<rparr>) rs"
    if "columns t' = columns t" "PER_of_record float r = Inr PER"
    for float r rs PER and t' :: table
  proof -
    have "28 < length r"
      using that(2) by (rule PER_of_record_Inr_length)
    then have "py_index r 0 = Inr (r ! 0)" "py_index r 1 = Inr (r ! 1)"
      by (auto simp: py_index_def)
    with that show ?thesis
      by (simp add: upd)
  qed
  have run: "columns t' = columns t \<and>
      list_all2 (\<lambda>r r'. \<exists>PER. PER_of_record float r = Inr PER \<and> r' = r[k := SReal PER])
        (rows t) (rows t')"
    if "update_all float t (rows t) = Inr t'" for float t'
  proof -
    have "distinct (map identity ([] @ rows t))"
      using c0(3) rws by simp
    from update_all_rows [OF name pos per that refl _ this] show ?thesis
      by simp
  qed
  have stored: "\<forall>r\<in>set (rows t). \<exists>p\<in>set player_data.
        2 \<le> length p \<and> r ! 0 = SText (p ! 0) \<and> r ! 1 = SText (p ! 1)"
  proof
    fix r assume "r \<in> set (rows t)"
    with c0(5) rws obtain p where "p \<in> set player_data" "2 \<le> length p" "r = new_row p"
      by auto
    then show "\<exists>p\<in>set player_data. 2 \<le> length p \<and> r ! 0 = SText (p ! 0) \<and> r ! 1 = SText (p ! 1)"
      by (auto simp: new_row_def)
  qed
  have single: "\<forall>r\<in>set (rows t). \<forall>r'\<in>set (rows t). r' ! 0 = r ! 0 \<and> r' ! 1 = r ! 1 \<longrightarrow> r' = r"
    using same_identity_same_row [OF c0(3)] rws by auto
  have layout: "column_index (columns t) ''Age'' = Some 2 \<and>
        column_index (columns t) ''Tm'' = Some 3 \<and>
        (\<forall>r\<in>set (rows t). \<exists>p\<in>set player_data.
           4 \<le> length p \<and> r ! 0 = SText (p ! 0) \<and> r ! 1 = SText (p ! 1) \<and>
           r ! 2 = SText (fill (p ! 2)) \<and> r ! 3 = SText (fill (p ! 3)))"
    if "\<exists>rest. headers = ''Player'' # ''Pos'' # ''Age'' # ''Tm'' # rest"
  proof -
    from that obtain rest where h: "headers = ''Player'' # ''Pos'' # ''Age'' # ''Tm'' # rest"
      by blast
    have cols0: "columns t0 =
        ''player_name'' # ''player_team'' # ''Pos'' # ''Age'' # stat_columns rest @ [''PER'']"
      unfolding c0(1) h by (simp add: stat_columns_def)
    have "column_index (columns t0) ''Age'' = Some 3" "column_index (columns t0) ''Pos'' = Some 2"
      unfolding cols0 by (simp_all add: different_names numeral_3_eq_3 numeral_2_eq_2)
    with age0 pos0 have ap: "a = 3" "p = 2"
      by simp_all
    have "\<exists>q\<in>set player_data.
           4 \<le> length q \<and> r ! 0 = SText (q ! 0) \<and> r ! 1 = SText (q ! 1) \<and>
           r ! 2 = SText (fill (q ! 2)) \<and> r ! 3 = SText (fill (q ! 3))"
      if r: "r \<in> set (rows t)" for r
    proof -
      from r c0(5) rws obtain q where q: "q \<in> set player_data" "2 \<le> length q" "r = new_row q"
        by auto
      have "length r = length (columns t0)"
        using create_and_insert_lengths [OF t0] r rws by simp
      then have "5 \<le> length (new_row q)"
        using q(3) cols0 by simp
      then have len: "4 \<le> length q"
        using q(2) by (simp add: length_new_row)
      then have "r ! 2 = SText (fill (q ! 2))" "r ! 3 = SText (fill (q ! 3))"
        unfolding q(3) by (simp_all add: new_row_nth)
      moreover have "r ! 0 = SText (q ! 0)" "r ! 1 = SText (q ! 1)"
        unfolding q(3) by (simp_all add: new_row_def)
      ultimately show ?thesis
        using q(1) len by blast
    qed
    with age tm ap show ?thesis
      by simp
  qed
  from t0 team rws have created: "\<exists>t0. create_and_insert headers player_data = Inr t0 \<and>
           column_index (columns t0) ''player_team'' = Some 1 \<and> rows t = rows t0"
    by blast
  from per upd step run have calc: "\<exists>k. column_index (columns t) ''PER'' = Some k \<and>
        (\<forall>(t' :: table) PER name position. columns t' = columns t \<longrightarrow>
           sql_update_PER t' PER name position =
             Inr (t'\<lparr>rows := map (\<lambda>r. if r ! 0 = name \<and> r ! 1 = position
                                       then r[k := SReal PER] else r) (rows t')\<rparr>)) \<and>
        (\<forall>float r rs PER (t' :: table).
           columns t' = columns t \<longrightarrow> PER_of_record float r = Inr PER \<longrightarrow>
           update_all float t' (r # rs) =
             update_all float
               (t'\<lparr>rows := map (\<lambda>r'. if r' ! 0 = r ! 0 \<and> r' ! 1 = r ! 1
                                      then r'[k := SReal PER] else r') (rows t')\<rparr>) rs) \<and>
        (\<forall>float t'. update_all float t (rows t) = Inr t' \<longrightarrow>
           columns t' = columns t \<and>
           list_all2 (\<lambda>r r'. \<exists>PER. PER_of_record float r = Inr PER \<and> r' = r[k := SReal PER])
             (rows t) (rows t'))"
    by blast
  from name pos created stored calc single layout show ?thesis
    by blast
qed

theorem update_keyed_on_name_and_Position_witness:
  "create_nba_database example_headers [td_texts (example_document ! 1)] None
     = Inr (Some example_store) \<and>
   column_index (columns example_store) ''player_name'' = Some 0 \<and>
   column_index (columns example_store) ''Position'' = Some 1 \<and>
   column_index (columns example_store) ''Tm'' = Some 3 \<and>
   rows example_store ! 0 ! 1 = SText ''SF'' \<and> rows example_store ! 0 ! 3 = SText ''LAL'' \<and>
   PER_of_record float_of_decimal example_record = Inr 42.5 \<and>
   sql_update_PER example_store 42.5 (SText ''LeBron James'') (SText ''SF'') =
     Inr (example_store\<lparr>rows := [example_record[29 := SReal 42.5]]\<rparr>) \<and>
   update_all float_of_decimal example_store (rows example_store) =
     Inr (example_store\<lparr>rows := [example_record[29 := SReal 42.5]]\<rparr>)"
proof -
  have layout: "\<exists>rest. example_headers = ''Player'' # ''Pos'' # ''Age'' # ''Tm'' # rest"
    by (simp add: example_headers_def)
  have rws: "rows example_store = [example_record]"
    by (simp add: example_store_def)
  have first: "example_record ! 0 = SText ''LeBron James''" "example_record ! 1 = SText ''SF''"
    "example_record ! 3 = SText ''LAL''"
    by (simp_all add: example_record_def)
  from update_keyed_on_name_and_Position [OF example_create_nba_database] layout
  obtain k where n: "column_index (columns example_store) ''player_name'' = Some 0"
    and p: "column_index (columns example_store) ''Position'' = Some 1"
    and tm: "column_index (columns example_store) ''Tm'' = Some 3"
    and k: "column_index (columns example_store) ''PER'' = Some k"
    and u: "\<And>(t' :: table) PER name position. columns t' = columns example_store \<Longrightarrow>
           sql_update_PER t' PER name position =
             Inr (t'\<lparr>rows := map (\<lambda>r. if r ! 0 = name \<and> r ! 1 = position
                                       then r[k := SReal PER] else r) (rows t')\<rparr>)"
    and s: "\<And>float r rs PER (t' :: table).
           columns t' = columns example_store \<Longrightarrow> PER_of_record float r = Inr PER \<Longrightarrow>
           update_all float t' (r # rs) =
             update_all float
               (t'\<lparr>rows := map (\<lambda>r'. if r' ! 0 = r ! 0 \<and> r' ! 1 = r ! 1
                                      then r'[k := SReal PER] else r') (rows t')\<rparr>) rs"
    by blast
  from k have k29: "k = 29"
    by (simp add: example_column_index)
  have a: "sql_update_PER example_store 42.5 (SText ''LeBron James'') (SText ''SF'') =
     Inr (example_store\<lparr>rows := [example_record[29 := SReal 42.5]]\<rparr>)"
    using u [OF refl, of "42.5" "SText ''LeBron James''" "SText ''SF''"]
    unfolding k29 rws by (simp add: example_record_def)
  have b: "update_all float_of_decimal example_store (rows example_store) =
     Inr (example_store\<lparr>rows := [example_record[29 := SReal 42.5]]\<rparr>)"
    using s [OF refl example_record_PER, of "[]"]
    unfolding k29 rws by (simp add: example_record_def)
  from a b n p tm rws first example_record_PER example_create_nba_database show ?thesis
    by simp
qed

section \<open>Rows of fewer than two fields\<close>

lemma demo_scrape:
  "scrape_nba_player_data (Some demo_document) = Inr (demo_headers, demo_player_data)"
  by (simp add: scrape_nba_player_data_def demo_document_def demo_headers_def
      demo_player_data_def sanitize_defs)

lemma scrape_nba_player_data_Inr:
  "scrape_nba_player_data doc = Inr (headers, player_data) \<Longrightarrow>
     \<exists>table. doc = Some table \<and> player_data = map td_texts (drop 1 table)"
  by (cases doc) (auto simp: scrape_nba_player_data_def and_then_eq_Inr Let_def)

lemma insert_all_filter:
  "insert_all t player_data = insert_all t (filter (\<lambda>p. 2 \<le> length p) player_data)"
  by (induction player_data arbitrary: t) (auto simp: and_then_def split: sum.splits)

text \<open>
  C8, as stated: every row of the \<open>player_data\<close> that \<open>scrape_nba_player_data\<close>
  returns has at least two fields. It does not hold: lines 46 to 48 append the data
  cells of every table row after the first, and a header row repeated among the data
  rows has no data cell. The second row returned for the small season is empty.
\<close>

theorem scrape_returns_short_rows:
  "scrape_nba_player_data (Some demo_document) =
     Inr ([''Player'', ''Pos'', ''Age'', ''Tm'', ''G''],
          [[''A Guard'', ''PG'', ''25'', ''LAL'', ''50''],
           [],
           [''A Guard'', ''PG'', ''26'', ''BOS'', ''''],
           [''B Center'', ''C'', ''30'', ''NYK'', ''49'']]) \<and>
   \<not> 2 \<le> length ([[''A Guard'', ''PG'', ''25'', ''LAL'', ''50''],
                     [],
                     [''A Guard'', ''PG'', ''26'', ''BOS'', ''''],
                     [''B Center'', ''C'', ''30'', ''NYK'', ''49'']] ! 1)"
  by (simp add: scrape_nba_player_data_def demo_document_def sanitize_defs)

text \<open>
  C8, amended: \<open>scrape_nba_player_data\<close> returns the data cells of every table row
  after the first, whatever their number; the rows of fewer than two fields are
  dropped by \<open>create_nba_database\<close> (lines 86 and 87), which runs as if they were
  not there, so that every stored row is made from a row of at least two fields.
\<close>

theorem short_rows_dropped_on_insert:
  "(scrape_nba_player_data doc = Inr (headers, player_data) \<longrightarrow>
      (\<exists>table. doc = Some table \<and> player_data = map td_texts (drop 1 table))) \<and>
   create_nba_database hs pd store =
     create_nba_database hs (filter (\<lambda>p. 2 \<le> length p) pd) store \<and>
   (create_nba_database hs pd None = Inr (Some t) \<longrightarrow>
      (\<forall>r\<in>set (rows t). \<exists>p\<in>set pd. 2 \<le> length p \<and> r = new_row p))"
proof (intro conjI impI)
  assume "scrape_nba_player_data doc = Inr (headers, player_data)"
  then show "\<exists>table. doc = Some table \<and> player_data = map td_texts (drop 1 table)"
    by (rule scrape_nba_player_data_Inr)
next
  have "create_and_insert hs pd = create_and_insert hs (filter (\<lambda>p. 2 \<le> length p) pd)"
    using insert_all_filter [of _ pd]
    by (cases "sql_create_table (stat_columns hs)") (simp_all add: create_and_insert_def)
  then show "create_nba_database hs pd store =
     create_nba_database hs (filter (\<lambda>p. 2 \<le> length p) pd) store"
    by (cases store) (simp_all add: create_nba_database_def)
next
  assume "create_nba_database hs pd None = Inr (Some t)"
  then obtain t0 where t0: "create_and_insert hs pd = Inr t0"
    and ren: "rename_columns t0 = Inr t"
    by (auto simp: create_nba_database_new)
  from create_and_insert_Inr(5) [OF t0] rename_columns_rows [OF ren]
  show "\<forall>r\<in>set (rows t). \<exists>p\<in>set pd. 2 \<le> length p \<and> r = new_row p"
    by simp
qed

theorem short_rows_dropped_on_insert_witness:
  "scrape_nba_player_data (Some demo_document) = Inr (demo_headers, demo_player_data) \<and>
   demo_player_data = map td_texts (drop 1 demo_document) \<and>
   create_nba_database demo_headers demo_player_data None = Inr (Some demo_store) \<and>
   create_nba_database demo_headers
     [[''A Guard'', ''PG'', ''25'', ''LAL'', ''50''],
      [''A Guard'', ''PG'', ''26'', ''BOS'', ''''],
      [''B Center'', ''C'', ''30'', ''NYK'', ''49'']] None = Inr (Some demo_store) \<and>
   rows demo_store = [new_row (demo_player_data ! 0), new_row (demo_player_data ! 3)]"
proof -
  note inst = short_rows_dropped_on_insert
    [of "Some demo_document" demo_headers demo_player_data demo_headers demo_player_data None
        demo_store]
  from inst demo_scrape have a: "demo_player_data = map td_texts (drop 1 demo_document)"
    by auto
  from inst demo_create_nba_database
  have "create_nba_database demo_headers (filter (\<lambda>p. 2 \<le> length p) demo_player_data) None
          = Inr (Some demo_store)"
    by simp
  then have b: "create_nba_database demo_headers
     [[''A Guard'', ''PG'', ''25'', ''LAL'', ''50''],
      [''A Guard'', ''PG'', ''26'', ''BOS'', ''''],
      [''B Center'', ''C'', ''30'', ''NYK'', ''49'']] None = Inr (Some demo_store)"
    by (simp add: demo_player_data_def)
  have c: "rows demo_store = [new_row (demo_player_data ! 0), new_row (demo_player_data ! 3)]"
    by (simp add: demo_store_def demo_player_data_def new_row_def fill_def)
  from a b c demo_scrape demo_create_nba_database show ?thesis
    by blast
qed

section \<open>The games filter\<close>

lemma select_top_players_rows:
  "select_top_players (t\<lparr>rows := rs\<rparr>) =
     (case (column_index (columns t) ''player_name'', column_index (columns t) ''Position'',
            column_index (columns t) ''PER'', column_index (columns t) ''G'') of
        (Some i, Some j, Some k, Some g) \<Rightarrow>
          Inr (map (\<lambda>r. (r ! i, r ! j, r ! k)) (filter (\<lambda>r. games_at_least_50 (r ! g)) rs))
      | _ \<Rightarrow> Inl OperationalError)"
  by (simp add: select_top_players_def split: option.splits)

text \<open>
  C9. The filter of the query of \<open>print_top_players\<close> keeps a player whose games
  played are exactly 50 and leaves out a player whose games played are 49: a row
  whose \<open>G\<close> is \<open>49\<close> changes nothing in the result of the query, and a row whose
  \<open>G\<close> is \<open>50\<close> is in the result, at its place. (The comparison is one of texts, the
  column being \<open>TEXT\<close>.)
\<close>

theorem games_filter_boundary:
  "games_at_least_50 (SText ''50'') \<and> \<not> games_at_least_50 (SText ''49'') \<and>
   (column_index (columns t) ''G'' = Some g \<and> r ! g = SText ''49'' \<longrightarrow>
      select_top_players (t\<lparr>rows := rs1 @ r # rs2\<rparr>) =
        select_top_players (t\<lparr>rows := rs1 @ rs2\<rparr>)) \<and>
   (column_index (columns t) ''G'' = Some g \<and> r ! g = SText ''50'' \<and>
    select_top_players (t\<lparr>rows := rs1 @ r # rs2\<rparr>) = Inr res \<longrightarrow>
      (\<exists>i j k res1 res2.
         column_index (columns t) ''player_name'' = Some i \<and>
         column_index (columns t) ''Position'' = Some j \<and>
         column_index (columns t) ''PER'' = Some k \<and>
         select_top_players (t\<lparr>rows := rs1\<rparr>) = Inr res1 \<and>
         select_top_players (t\<lparr>rows := rs2\<rparr>) = Inr res2 \<and>
         res = res1 @ (r ! i, r ! j, r ! k) # res2))"
proof (intro conjI impI)
  show "games_at_least_50 (SText ''50'')"
    by simp
  show "\<not> games_at_least_50 (SText ''49'')"
    by simp
next
  assume "column_index (columns t) ''G'' = Some g \<and> r ! g = SText ''49''"
  then show "select_top_players (t\<lparr>rows := rs1 @ r # rs2\<rparr>) =
        select_top_players (t\<lparr>rows := rs1 @ rs2\<rparr>)"
    by (simp add: select_top_players_rows split: option.splits)
next
  assume a: "column_index (columns t) ''G'' = Some g \<and> r ! g = SText ''50'' \<and>
    select_top_players (t\<lparr>rows := rs1 @ r # rs2\<rparr>) = Inr res"
  then obtain i j k where l: "column_index (columns t) ''player_name'' = Some i"
      "column_index (columns t) ''Position'' = Some j"
      "column_index (columns t) ''PER'' = Some k"
    by (auto simp: select_top_players_rows split: option.splits)
  with a have "res =
      map (\<lambda>r. (r ! i, r ! j, r ! k)) (filter (\<lambda>r. games_at_least_50 (r ! g)) rs1)
      @ (r ! i, r ! j, r ! k)
      # map (\<lambda>r. (r ! i, r ! j, r ! k)) (filter (\<lambda>r. games_at_least_50 (r ! g)) rs2)"
    by (auto simp: select_top_players_rows)
  with a l show "\<exists>i j k res1 res2.
         column_index (columns t) ''player_name'' = Some i \<and>
         column_index (columns t) ''Position'' = Some j \<and>
         column_index (columns t) ''PER'' = Some k \<and>
         select_top_players (t\<lparr>rows := rs1\<rparr>) = Inr res1 \<and>
         select_top_players (t\<lparr>rows := rs2\<rparr>) = Inr res2 \<and>
         res = res1 @ (r ! i, r ! j, r ! k) # res2"
    by (simp add: select_top_players_rows)
qed

lemma demo_select_top_players:
  "select_top_players demo_store = Inr [(SText ''A Guard'', SText ''PG'', SReal 0)]"
  by (simp add: select_top_players_def demo_column_index) (simp add: demo_store_def)

theorem games_filter_boundary_witness:
  "select_top_players demo_store = Inr [(SText ''A Guard'', SText ''PG'', SReal 0)] \<and>
   select_top_players demo_store = select_top_players (demo_store\<lparr>rows := [rows demo_store ! 0]\<rparr>) \<and>
   rows demo_store ! 0 ! 4 = SText ''50'' \<and> rows demo_store ! 1 ! 4 = SText ''49''"
proof -
  have g: "rows demo_store ! 0 ! 4 = SText ''50''" "rows demo_store ! 1 ! 4 = SText ''49''"
    by (simp_all add: demo_store_def)
  have whole: "demo_store\<lparr>rows := [rows demo_store ! 0] @ rows demo_store ! 1 # []\<rparr> = demo_store"
    "demo_store\<lparr>rows := [] @ rows demo_store ! 0 # [rows demo_store ! 1]\<rparr> = demo_store"
    by (simp_all add: demo_store_def)
  from games_filter_boundary
    [of demo_store 4 "rows demo_store ! 1" "[rows demo_store ! 0]" "[]"]
    demo_column_index(8) g(2)
  have out: "select_top_players demo_store =
      select_top_players (demo_store\<lparr>rows := [rows demo_store ! 0]\<rparr>)"
    unfolding whole by simp
  from games_filter_boundary
    [of demo_store 4 "rows demo_store ! 0" "[]" "[rows demo_store ! 1]"
      "[(SText ''A Guard'', SText ''PG'', SReal 0)]"]
    demo_column_index(8) g(1) demo_select_top_players
  obtain i j k res1 res2 where "column_index (columns demo_store) ''player_name'' = Some i"
    "column_index (columns demo_store) ''Position'' = Some j"
    "column_index (columns demo_store) ''PER'' = Some k"
    "[(SText ''A Guard'', SText ''PG'', SReal 0)]
       = res1 @ (rows demo_store ! 0 ! i, rows demo_store ! 0 ! j, rows demo_store ! 0 ! k) # res2"
    unfolding whole by blast
  with g out demo_select_top_players show ?thesis
    by blast
qed

text \<open>
  The comparison of the filter being one of texts, a one-digit count of games from 6
  to 9 passes it, and a count of 100 would not.
\<close>

lemma games_filter_compares_texts:
  "games_at_least_50 (SText ''6'') \<and> games_at_least_50 (SText ''82'') \<and>
   \<not> games_at_least_50 (SText ''5'') \<and> \<not> games_at_least_50 (SText ''100'')"
  by simp

section \<open>The fetch of PER_calculator\<close>

text \<open>
  C10. What \<open>PER_calculator\<close> writes is determined by the stored rows: the headers and
  the rows that the fetch of line 127 returns are not read again, so two runs on the
  same store whose fetches return, whatever they return, end with the same store (or
  the same fault).
\<close>

theorem refetch_not_read:
  assumes "scrape_nba_player_data doc1 = Inr fetched1"
    and "scrape_nba_player_data doc2 = Inr fetched2"
  shows "PER_calculator float doc1 store = PER_calculator float doc2 store"
  using assms by (simp add: PER_calculator_def split: prod.splits)

theorem refetch_not_read_witness:
  "scrape_nba_player_data (Some example_document)
     = Inr (example_headers, [td_texts (example_document ! 1)]) \<and>
   scrape_nba_player_data (Some demo_document) = Inr (demo_headers, demo_player_data) \<and>
   PER_calculator float_of_decimal (Some demo_document) (Some example_store) =
     Inr (Some (example_store\<lparr>rows := [example_record[29 := SReal 42.5]]\<rparr>))"
  using refetch_not_read [OF example_scrape demo_scrape, of float_of_decimal "Some example_store"]
    example_PER_calculator example_scrape demo_scrape
  by simp

end
